theory Spec2Isabelle
  imports Complex_Main "HOL-Library.AList"
begin

section \<open>Conventions of the embedding\<close>

text \<open>
  The orbit tracker is written in Python. Its floats are embedded as \<^typ>\<open>real\<close>: the
  arithmetic below is exact, and the rounding of IEEE doubles is not part of the model.
  Every exception that the Python runtime raises on the modelled paths is a branch of
  the model: \<^verbatim>\<open>math.sqrt\<close> and \<^verbatim>\<open>math.asin\<close> outside their
  domain (ValueError), a float power whose result leaves the double range
  (OverflowError), a division by zero (ZeroDivisionError), and a \<^verbatim>\<open>datetime\<close> or
  \<^verbatim>\<open>timedelta\<close> outside the range of its type. A \<^verbatim>\<open>datetime\<close> is embedded
  as its number of microseconds since the Unix epoch in UTC, a \<^verbatim>\<open>timedelta\<close> as a
  number of microseconds. Strings are lists of code points below 256; there the class
  \<^verbatim>\<open>\d\<close> of \<^verbatim>\<open>re\<close> is the ten ASCII digits.
\<close>

datatype blad =
    ValueError | OverflowError | ZeroDivisionError | KeyError
  | BladWalidacjiCzasu | BladObliczenOrbitych | BladZasobuNieznaleziony

definition bind_blad :: "blad + 'a \<Rightarrow> ('a \<Rightarrow> blad + 'b) \<Rightarrow> blad + 'b" where
  "bind_blad r f = (case r of Inl e \<Rightarrow> Inl e | Inr x \<Rightarrow> f x)"

section \<open>Constants of \<^verbatim>\<open>satelity_modele.py\<close>\<close>

definition PARAMETR_GRAWIT_ZIEMI :: real where
  "PARAMETR_GRAWIT_ZIEMI = 3986004418 / 10000"

definition SREDNICA_BAZOWA_ZIEMI :: real where
  "SREDNICA_BAZOWA_ZIEMI = 6371"

definition TOLERANCJA_ZBLIZENIA :: real where
  "TOLERANCJA_ZBLIZENIA = 1 / 100"

definition EPSILON_NUMERYCZNY :: real where
  "EPSILON_NUMERYCZNY = 1 / 10 ^ 9"

section \<open>The functions of \<^verbatim>\<open>math\<close> and the float operators\<close>

text \<open>
  A double result of magnitude \<open>2^1024 - 2^970\<close> or more rounds to infinity; the float
  power of Python raises OverflowError there.
\<close>

definition PROG_NADMIARU :: real where
  "PROG_NADMIARU = 2 ^ 1024 - 2 ^ 970"

definition py_pow :: "real \<Rightarrow> nat \<Rightarrow> blad + real" where
  "py_pow x n = (if PROG_NADMIARU \<le> \<bar>x ^ n\<bar> then Inl OverflowError else Inr (x ^ n))"

definition py_sqrt :: "real \<Rightarrow> blad + real" where
  "py_sqrt x = (if x < 0 then Inl ValueError else Inr (sqrt x))"

definition py_asin :: "real \<Rightarrow> blad + real" where
  "py_asin x = (if x < - 1 \<or> 1 < x then Inl ValueError else Inr (arcsin x))"

definition py_atan2 :: "real \<Rightarrow> real \<Rightarrow> real" where
  "py_atan2 y x =
     (if 0 < x then arctan (y / x)
      else if x < 0 then (if 0 \<le> y then arctan (y / x) + pi else arctan (y / x) - pi)
      else if 0 < y then pi / 2
      else if y < 0 then - (pi / 2)
      else 0)"

definition radians :: "real \<Rightarrow> real" where
  "radians x = x * (pi / 180)"

definition degrees :: "real \<Rightarrow> real" where
  "degrees x = x * (180 / pi)"

text \<open>
  The float operator \<^verbatim>\<open>%\<close>: the result has the sign of the divisor. Both divisors
  in the program are non-zero constants (\<open>2 * pi\<close> and \<open>360\<close>).
\<close>

definition py_mod :: "real \<Rightarrow> real \<Rightarrow> real" where
  "py_mod x m = x - m * of_int \<lfloor>x / m\<rfloor>"

section \<open>Data classes\<close>

record WspolrzedneGeodezyjne =
  szer_geogr :: real
  dlug_geogr :: real
  wysokosc_npm :: real

record ParametryOrbitalne =
  polOs_wielka :: real
  inklinacja_kat :: real
  wezl_wstepujacy :: real

section \<open>ParametryOrbitalne\<close>

definition oblicz_okres_orbitalny :: "ParametryOrbitalne \<Rightarrow> blad + real" where
  "oblicz_okres_orbitalny p =
     bind_blad (py_pow (polOs_wielka p) 3) (\<lambda>szescian.
     bind_blad (py_sqrt (szescian / PARAMETR_GRAWIT_ZIEMI)) (\<lambda>pierw.
     Inr (2 * pi * pierw)))"

definition oblicz_predkosc_katowa :: "ParametryOrbitalne \<Rightarrow> blad + real" where
  "oblicz_predkosc_katowa p =
     bind_blad (oblicz_okres_orbitalny p) (\<lambda>T.
     Inr (if T > EPSILON_NUMERYCZNY then 2 * pi / T else 0))"

section \<open>PropagatorKeplerowski\<close>

definition normalizuj_dlugosc :: "real \<Rightarrow> real" where
  "normalizuj_dlugosc dlugosc_deg = py_mod (dlugosc_deg + 180) 360 - 180"

definition propaguj_pozycje ::
  "ParametryOrbitalne \<Rightarrow> real \<Rightarrow> real \<Rightarrow> blad + WspolrzedneGeodezyjne" where
  "propaguj_pozycje parametry czas_od_epoki dlug_poczatkowa =
     (let inklinacja_rad = radians (inklinacja_kat parametry);
          raan_rad = radians (wezl_wstepujacy parametry);
          dlug_pocz_rad = radians dlug_poczatkowa
      in bind_blad (oblicz_predkosc_katowa parametry) (\<lambda>omega_kat.
         let anomalia_prawdziwa = py_mod (omega_kat * czas_od_epoki + dlug_pocz_rad) (2 * pi)
         in bind_blad (py_asin (sin inklinacja_rad * sin anomalia_prawdziwa)) (\<lambda>szer_orb.
            let dlug_wsp = py_atan2 (cos inklinacja_rad * sin anomalia_prawdziwa)
                                    (cos anomalia_prawdziwa) + raan_rad;
                szer_geo = degrees szer_orb;
                dlug_geo = normalizuj_dlugosc (degrees dlug_wsp);
                wysokosc = polOs_wielka parametry - SREDNICA_BAZOWA_ZIEMI
            in Inr \<lparr>szer_geogr = szer_geo, dlug_geogr = dlug_geo, wysokosc_npm = wysokosc\<rparr>)))"

text \<open>
  \<^verbatim>\<open>oblicz_pozycje\<close>: the entry point of the propagator for one object, with the instant
  of the query and the start date of the object. Both are instants in UTC here, so the
  checks of the argument types and the completion of a missing time zone have no branch.
\<close>

definition total_seconds :: "int \<Rightarrow> real" where
  "total_seconds td = real_of_int td / 10 ^ 6"

definition oblicz_pozycje ::
  "ParametryOrbitalne \<Rightarrow> int \<Rightarrow> real \<Rightarrow> int \<Rightarrow> blad + WspolrzedneGeodezyjne" where
  "oblicz_pozycje param_orb moment dlugosc_pocz data_startowa =
     (let delta_t = total_seconds (moment - data_startowa)
      in if delta_t < 0 then Inl BladObliczenOrbitych
         else bind_blad (oblicz_predkosc_katowa param_orb) (\<lambda>omega.
              if \<bar>omega\<bar> < EPSILON_NUMERYCZNY then Inl BladObliczenOrbitych
              else propaguj_pozycje param_orb delta_t dlugosc_pocz))"


section \<open>\<^verbatim>\<open>datetime\<close> and \<^verbatim>\<open>timedelta\<close>\<close>

text \<open>
  The least and the greatest \<^verbatim>\<open>datetime\<close>, 0001-01-01T00:00:00 and
  9999-12-31T23:59:59.999999, in microseconds since the Unix epoch.
\<close>

definition DATETIME_MIN :: int where
  "DATETIME_MIN = - 62135596800000000"

definition DATETIME_MAX :: int where
  "DATETIME_MAX = 253402300799999999"

text \<open>\<^verbatim>\<open>datetime + timedelta\<close> raises OverflowError outside the range of the type.\<close>

definition datetime_dodaj :: "int \<Rightarrow> int \<Rightarrow> blad + int" where
  "datetime_dodaj dt td =
     (let w = dt + td
      in if w < DATETIME_MIN \<or> DATETIME_MAX < w then Inl OverflowError else Inr w)"

text \<open>
  The constructor of \<^verbatim>\<open>timedelta\<close> raises OverflowError when the magnitude of the
  days exceeds 999999999.
\<close>

definition timedelta :: "int \<Rightarrow> blad + int" where
  "timedelta us =
     (if us < - (999999999 * 86400000000) \<or> 1000000000 * 86400000000 \<le> us
      then Inl OverflowError else Inr us)"

text \<open>\<^verbatim>\<open>round\<close> with one argument: to the nearest integer, a tie to the even one.\<close>

definition py_round :: "real \<Rightarrow> int" where
  "py_round x =
     (let f = \<lfloor>x\<rfloor>; r = x - of_int f
      in if r < 1 / 2 then f else if 1 / 2 < r then f + 1 else if even f then f else f + 1)"

text \<open>
  \<^verbatim>\<open>datetime.fromtimestamp(ts, tz=timezone.utc)\<close>: the seconds are rounded to a
  microsecond; a year outside 1..9999 raises ValueError.
\<close>

definition fromtimestamp_utc :: "real \<Rightarrow> blad + int" where
  "fromtimestamp_utc ts =
     (let us = py_round (ts * 10 ^ 6)
      in if us < DATETIME_MIN \<or> DATETIME_MAX < us then Inl ValueError else Inr us)"

section \<open>SerwisAnalizyZdarzen of \<^verbatim>\<open>satelity_api.py\<close>: the time grid\<close>

text \<open>
  \<^verbatim>\<open>re.match\<close> of the pattern \<^verbatim>\<open>^(\d+)(ms|s|m|h|d)$\<close>: the digits are taken greedily
  (no unit begins with a digit, so a shorter run never matches), the alternatives are tried
  in their order, and \<^verbatim>\<open>$\<close> matches at the end of the string and also before a
  newline that ends the string. The result is the pair of the two groups.
\<close>

definition czy_cyfra :: "char \<Rightarrow> bool" where
  "czy_cyfra c = (c \<in> set ''0123456789'')"

definition dopasuj_wzorzec :: "string \<Rightarrow> (string \<times> string) option" where
  "dopasuj_wzorzec tekst =
     (let cyfry = takeWhile czy_cyfra tekst; reszta = dropWhile czy_cyfra tekst
      in if cyfry = [] then None
         else (case find (\<lambda>j. reszta = j \<or> reszta = j @ [CHR 0x0A])
                         [''ms'', ''s'', ''m'', ''h'', ''d''] of
                 None \<Rightarrow> None
               | Some j \<Rightarrow> Some (cyfry, j)))"

text \<open>\<^verbatim>\<open>int\<close> of a string of decimal digits.\<close>

definition py_int :: "string \<Rightarrow> int" where
  "py_int cyfry = foldl (\<lambda>acc c. 10 * acc + (int (of_char c) - 48)) 0 cyfry"

definition mapowanie :: "string \<Rightarrow> int \<Rightarrow> blad + int" where
  "mapowanie jednostka v =
     (if jednostka = ''ms'' then timedelta (v * 1000)
      else if jednostka = ''s'' then timedelta (v * 1000000)
      else if jednostka = ''m'' then timedelta (v * 60000000)
      else if jednostka = ''h'' then timedelta (v * 3600000000)
      else if jednostka = ''d'' then timedelta (v * 86400000000)
      else Inl KeyError)"

definition parsuj_precyzje :: "string \<Rightarrow> blad + int" where
  "parsuj_precyzje tekst_precyzji =
     (case dopasuj_wzorzec tekst_precyzji of
        None \<Rightarrow> Inl ValueError
      | Some (grupa1, jednostka) \<Rightarrow>
          (let wartosc = py_int grupa1
           in if wartosc < 1 then Inl ValueError else mapowanie jednostka wartosc))"

definition zaokraglij_do_siatki :: "int \<Rightarrow> int \<Rightarrow> blad + int" where
  "zaokraglij_do_siatki dt delta =
     (let timestamp = real_of_int dt / 10 ^ 6;
          delta_sekund = total_seconds delta
      in if delta_sekund = 0 then Inl ZeroDivisionError
         else (let zaokraglony = of_int (py_round (timestamp / delta_sekund)) * delta_sekund
               in fromtimestamp_utc zaokraglony))"

section \<open>Catalogue records and events\<close>

text \<open>
  The rows of the catalogue as the scan reads them. The start date of an object is stored
  without a time zone and is taken as UTC; the relationship \<^verbatim>\<open>orbita_ref\<close> gives the
  orbit of the object.
\<close>

record ModelOrbityBD =
  wysokosc_km :: real
  kat_inklinacji :: real
  wezel_wst :: real

record ModelObiektuBD =
  id_rekordu :: int
  data_wprowadzenia :: int
  stan_operacyjny :: string
  pozycja_startowa_lon :: real
  id_orbity_powiazanej :: int
  orbita_ref :: ModelOrbityBD

text \<open>
  The session of the database as the services query it: the table of objects in the order
  in which a query without an ordering returns its rows, and the table of orbits by primary
  key.
\<close>

record Sesja =
  obj_katalog :: "ModelObiektuBD list"
  orb_katalog :: "(int \<times> ModelOrbityBD) list"

record ZdarzeniePrzestrz =
  obiekt_id_a :: int
  obiekt_id_b :: int
  moment_czasu :: int
  lokalizacja :: WspolrzedneGeodezyjne
  dystans_min :: real

section \<open>WspolrzedneGeodezyjne: Cartesian form and distance\<close>

definition do_kartezjanskich :: "WspolrzedneGeodezyjne \<Rightarrow> real \<times> real \<times> real" where
  "do_kartezjanskich w =
     (let promien_calkowity = SREDNICA_BAZOWA_ZIEMI + wysokosc_npm w;
          lat_rad = radians (szer_geogr w);
          lon_rad = radians (dlug_geogr w);
          x_ecef = promien_calkowity * cos lat_rad * cos lon_rad;
          y_ecef = promien_calkowity * cos lat_rad * sin lon_rad;
          z_ecef = promien_calkowity * sin lat_rad
      in (x_ecef, y_ecef, z_ecef))"

definition dystans_do :: "WspolrzedneGeodezyjne \<Rightarrow> WspolrzedneGeodezyjne \<Rightarrow> blad + real" where
  "dystans_do w inne =
     (case do_kartezjanskich w of (x1, y1, z1) \<Rightarrow>
      case do_kartezjanskich inne of (x2, y2, z2) \<Rightarrow>
        bind_blad (py_pow (x2 - x1) 2) (\<lambda>dx.
        bind_blad (py_pow (y2 - y1) 2) (\<lambda>dy.
        bind_blad (py_pow (z2 - z1) 2) (\<lambda>dz.
        py_sqrt (dx + dy + dz)))))"

section \<open>SerwisObliczenOrbitalalnych of \<^verbatim>\<open>satelity_api.py\<close>\<close>

text \<open>The result \<open>Inr None\<close> is the \<^verbatim>\<open>None\<close> of an object that is not yet introduced.\<close>

definition oblicz_pozycje_w_czasie ::
  "ModelObiektuBD \<Rightarrow> int \<Rightarrow> blad + WspolrzedneGeodezyjne option" where
  "oblicz_pozycje_w_czasie model_obiektu znacznik_czasu =
     (if znacznik_czasu < data_wprowadzenia model_obiektu then Inr None
      else (let orbita = orbita_ref model_obiektu;
                params = \<lparr>polOs_wielka = SREDNICA_BAZOWA_ZIEMI + wysokosc_km orbita,
                          inklinacja_kat = kat_inklinacji orbita,
                          wezl_wstepujacy = wezel_wst orbita\<rparr>;
                delta_czasu = total_seconds (znacznik_czasu - data_wprowadzenia model_obiektu)
            in bind_blad (propaguj_pozycje params delta_czasu (pozycja_startowa_lon model_obiektu))
                 (\<lambda>wspolrzedne. Inr (Some wspolrzedne))))"

section \<open>SerwisAnalizyZdarzen of \<^verbatim>\<open>satelity_api.py\<close>: the scan\<close>

text \<open>
  The first loop of a tick fills the dictionary \<^verbatim>\<open>pozycje_map\<close>, here an association
  list in the order of insertion. An exception of the position service is not caught.
\<close>

fun pozycje_petla ::
  "ModelObiektuBD list \<Rightarrow> int \<Rightarrow> (int \<times> WspolrzedneGeodezyjne) list
     \<Rightarrow> blad + (int \<times> WspolrzedneGeodezyjne) list" where
  "pozycje_petla [] czas_obecny pozycje_map = Inr pozycje_map"
| "pozycje_petla (obiekt # reszta) czas_obecny pozycje_map =
     (if stan_operacyjny obiekt \<noteq> ''active'' then pozycje_petla reszta czas_obecny pozycje_map
      else (case oblicz_pozycje_w_czasie obiekt czas_obecny of
              Inl e \<Rightarrow> Inl e
            | Inr None \<Rightarrow> pozycje_petla reszta czas_obecny pozycje_map
            | Inr (Some pozycja) \<Rightarrow>
                pozycje_petla reszta czas_obecny
                  (AList.update (id_rekordu obiekt) pozycja pozycje_map)))"

text \<open>
  The inner loop over \<^verbatim>\<open>ids_aktywne[i+1:]\<close> for one \<^verbatim>\<open>id_a\<close>, and the outer loop
  over \<^verbatim>\<open>ids_aktywne\<close>. A key that is missing from the dictionary raises KeyError.
\<close>

fun petla_id_b ::
  "(int \<times> WspolrzedneGeodezyjne) list \<Rightarrow> real \<Rightarrow> int \<Rightarrow> int \<Rightarrow> int list
     \<Rightarrow> blad + ZdarzeniePrzestrz list" where
  "petla_id_b pozycje_map prog czas_obecny id_a [] = Inr []"
| "petla_id_b pozycje_map prog czas_obecny id_a (id_b # reszta) =
     (case map_of pozycje_map id_a of
        None \<Rightarrow> Inl KeyError
      | Some poz_a \<Rightarrow>
     (case map_of pozycje_map id_b of
        None \<Rightarrow> Inl KeyError
      | Some poz_b \<Rightarrow>
          bind_blad (dystans_do poz_a poz_b) (\<lambda>dystans.
          bind_blad (petla_id_b pozycje_map prog czas_obecny id_a reszta) (\<lambda>dalsze.
          Inr (if dystans < prog
               then \<lparr>obiekt_id_a = min id_a id_b, obiekt_id_b = max id_a id_b,
                     moment_czasu = czas_obecny, lokalizacja = poz_a,
                     dystans_min = dystans\<rparr> # dalsze
               else dalsze)))))"

fun petla_id_a ::
  "(int \<times> WspolrzedneGeodezyjne) list \<Rightarrow> real \<Rightarrow> int \<Rightarrow> int list
     \<Rightarrow> blad + ZdarzeniePrzestrz list" where
  "petla_id_a pozycje_map prog czas_obecny [] = Inr []"
| "petla_id_a pozycje_map prog czas_obecny (id_a # reszta) =
     bind_blad (petla_id_b pozycje_map prog czas_obecny id_a reszta) (\<lambda>pierwsze.
     bind_blad (petla_id_a pozycje_map prog czas_obecny reszta) (\<lambda>dalsze.
     Inr (pierwsze @ dalsze)))"

text \<open>The body of the \<^verbatim>\<open>while\<close> loop without the step of the clock: one tick.\<close>

definition zdarzenia_kroku ::
  "ModelObiektuBD list \<Rightarrow> real \<Rightarrow> int \<Rightarrow> blad + ZdarzeniePrzestrz list" where
  "zdarzenia_kroku obiekty prog czas_obecny =
     bind_blad (pozycje_petla obiekty czas_obecny []) (\<lambda>pozycje_map.
     petla_id_a pozycje_map prog czas_obecny (sort (map fst pozycje_map)))"

text \<open>
  The \<^verbatim>\<open>while\<close> loop over the grid. The value \<open>None\<close> stands for a loop that does not
  return.
\<close>

partial_function (option) petla_siatki ::
  "ModelObiektuBD list \<Rightarrow> real \<Rightarrow> int \<Rightarrow> int \<Rightarrow> int \<Rightarrow> ZdarzeniePrzestrz list
     \<Rightarrow> (blad + ZdarzeniePrzestrz list) option" where
  "petla_siatki obiekty prog delta_czasu czas_koniec czas_obecny zdarzenia =
     (if czas_obecny \<le> czas_koniec
      then (case zdarzenia_kroku obiekty prog czas_obecny of
              Inl e \<Rightarrow> Some (Inl e)
            | Inr nowe \<Rightarrow>
                (case datetime_dodaj czas_obecny delta_czasu of
                   Inl e \<Rightarrow> Some (Inl e)
                 | Inr nastepny \<Rightarrow>
                     petla_siatki obiekty prog delta_czasu czas_koniec nastepny (zdarzenia @ nowe)))
      else Some (Inr zdarzenia))"

definition wykryj_zdarzenia_w_przedziale ::
  "ModelObiektuBD list \<Rightarrow> real \<Rightarrow> int \<Rightarrow> int \<Rightarrow> int
     \<Rightarrow> (blad + ZdarzeniePrzestrz list) option" where
  "wykryj_zdarzenia_w_przedziale obiekty prog czas_start czas_koniec delta_czasu =
     (case zaokraglij_do_siatki czas_start delta_czasu of
        Inl e \<Rightarrow> Some (Inl e)
      | Inr poczatek \<Rightarrow>
     (case zaokraglij_do_siatki czas_koniec delta_czasu of
        Inl e \<Rightarrow> Some (Inl e)
      | Inr koniec \<Rightarrow> petla_siatki obiekty prog delta_czasu koniec poczatek []))"

section \<open>The services of \<^verbatim>\<open>satelity_serwisy.py\<close>: the detector at one instant\<close>

text \<open>
  \<^verbatim>\<open>SerwisObliczenOrbitalalnych.oblicz_pozycje_obiektu\<close>. The validator of time stamps
  is a parameter of the service; it is a parameter here as well.
\<close>

definition oblicz_pozycje_obiektu ::
  "(string \<Rightarrow> blad + int) \<Rightarrow> Sesja \<Rightarrow> int \<Rightarrow> string \<Rightarrow> blad + WspolrzedneGeodezyjne" where
  "oblicz_pozycje_obiektu waliduj_znacznik sesja_bd id_obiektu znacznik_czasu =
     bind_blad (waliduj_znacznik znacznik_czasu) (\<lambda>moment.
       case find (\<lambda>ob. id_rekordu ob = id_obiektu) (obj_katalog sesja_bd) of
         None \<Rightarrow> Inl BladZasobuNieznaleziony
       | Some obiekt \<Rightarrow>
           (case map_of (orb_katalog sesja_bd) (id_orbity_powiazanej obiekt) of
              None \<Rightarrow> Inl BladZasobuNieznaleziony
            | Some orbita \<Rightarrow>
                (let params = \<lparr>polOs_wielka = wysokosc_km orbita + SREDNICA_BAZOWA_ZIEMI,
                               inklinacja_kat = kat_inklinacji orbita,
                               wezl_wstepujacy = wezel_wst orbita\<rparr>
                 in oblicz_pozycje params moment (pozycja_startowa_lon obiekt)
                      (data_wprowadzenia obiekt))))"

text \<open>
  The loop of \<^verbatim>\<open>wykryj_kolizje\<close> that fills \<^verbatim>\<open>pozycje\<close>: every exception of the
  position service is caught and the object is skipped.
\<close>

fun petla_pozycji ::
  "(string \<Rightarrow> blad + int) \<Rightarrow> Sesja \<Rightarrow> string \<Rightarrow> ModelObiektuBD list
     \<Rightarrow> (int \<times> WspolrzedneGeodezyjne) list \<Rightarrow> (int \<times> WspolrzedneGeodezyjne) list" where
  "petla_pozycji waliduj_znacznik sesja_bd znacznik_czasu [] pozycje = pozycje"
| "petla_pozycji waliduj_znacznik sesja_bd znacznik_czasu (obj # reszta) pozycje =
     (case oblicz_pozycje_obiektu waliduj_znacznik sesja_bd (id_rekordu obj) znacznik_czasu of
        Inl e \<Rightarrow> petla_pozycji waliduj_znacznik sesja_bd znacznik_czasu reszta pozycje
      | Inr poz \<Rightarrow>
          petla_pozycji waliduj_znacznik sesja_bd znacznik_czasu reszta
            (AList.update (id_rekordu obj) poz pozycje))"

fun kolizje_id_b ::
  "(string \<Rightarrow> blad + int) \<Rightarrow> real \<Rightarrow> (int \<times> WspolrzedneGeodezyjne) list \<Rightarrow> string
     \<Rightarrow> int \<Rightarrow> int list \<Rightarrow> blad + ZdarzeniePrzestrz list" where
  "kolizje_id_b waliduj_znacznik prog pozycje znacznik_czasu id_a [] = Inr []"
| "kolizje_id_b waliduj_znacznik prog pozycje znacznik_czasu id_a (id_b # reszta) =
     (case map_of pozycje id_a of
        None \<Rightarrow> Inl KeyError
      | Some poz_a \<Rightarrow>
     (case map_of pozycje id_b of
        None \<Rightarrow> Inl KeyError
      | Some poz_b \<Rightarrow>
          bind_blad (dystans_do poz_a poz_b) (\<lambda>dystans.
          if dystans \<le> prog
          then (let sr_lat = (szer_geogr poz_a + szer_geogr poz_b) / 2;
                    sr_lon = (dlug_geogr poz_a + dlug_geogr poz_b) / 2;
                    sr_alt = (wysokosc_npm poz_a + wysokosc_npm poz_b) / 2
                in bind_blad (waliduj_znacznik znacznik_czasu) (\<lambda>moment.
                   bind_blad (kolizje_id_b waliduj_znacznik prog pozycje znacznik_czasu id_a reszta)
                     (\<lambda>dalsze.
                   Inr (\<lparr>obiekt_id_a = id_a, obiekt_id_b = id_b, moment_czasu = moment,
                         lokalizacja = \<lparr>szer_geogr = sr_lat, dlug_geogr = sr_lon,
                                         wysokosc_npm = sr_alt\<rparr>,
                         dystans_min = dystans\<rparr> # dalsze))))
          else kolizje_id_b waliduj_znacznik prog pozycje znacznik_czasu id_a reszta)))"

fun kolizje_id_a ::
  "(string \<Rightarrow> blad + int) \<Rightarrow> real \<Rightarrow> (int \<times> WspolrzedneGeodezyjne) list \<Rightarrow> string
     \<Rightarrow> int list \<Rightarrow> blad + ZdarzeniePrzestrz list" where
  "kolizje_id_a waliduj_znacznik prog pozycje znacznik_czasu [] = Inr []"
| "kolizje_id_a waliduj_znacznik prog pozycje znacznik_czasu (id_a # reszta) =
     bind_blad (kolizje_id_b waliduj_znacznik prog pozycje znacznik_czasu id_a reszta) (\<lambda>pierwsze.
     bind_blad (kolizje_id_a waliduj_znacznik prog pozycje znacznik_czasu reszta) (\<lambda>dalsze.
     Inr (pierwsze @ dalsze)))"

definition wykryj_kolizje ::
  "(string \<Rightarrow> blad + int) \<Rightarrow> real \<Rightarrow> Sesja \<Rightarrow> string \<Rightarrow> int option
     \<Rightarrow> blad + ZdarzeniePrzestrz list" where
  "wykryj_kolizje waliduj_znacznik prog_zblizenia sesja_bd znacznik_czasu filtr_orbit =
     (let aktywne = filter (\<lambda>ob. stan_operacyjny ob = ''active'') (obj_katalog sesja_bd);
          obiekty = (case filtr_orbit of
                       None \<Rightarrow> aktywne
                     | Some f \<Rightarrow> if f \<noteq> 0
                                 then filter (\<lambda>ob. id_orbity_powiazanej ob = f) aktywne
                                 else aktywne)
      in if length obiekty < 2 then Inr []
         else (let pozycje = petla_pozycji waliduj_znacznik sesja_bd znacznik_czasu obiekty [];
                   ids = map fst pozycje
               in kolizje_id_a waliduj_znacznik prog_zblizenia pozycje znacznik_czasu ids))"

section \<open>Definitions that follow the specification\<close>


text \<open>
  The angular velocity and the orbital-plane argument as the specification writes them:
  \<open>2 * pi\<close> over the period \<open>2 * pi * sqrt (a^3 / 398600.4418)\<close>, and
  \<open>(omega * t + l0_rad) mod (2 * pi)\<close>.
\<close>

definition predkosc_katowa_spec :: "real \<Rightarrow> real" where
  "predkosc_katowa_spec a = 2 * pi / (2 * pi * sqrt (a ^ 3 / (3986004418 / 10000)))"

definition argument_spec :: "real \<Rightarrow> real \<Rightarrow> real \<Rightarrow> real" where
  "argument_spec a t l0 =
     (let x = predkosc_katowa_spec a * t + l0 * pi / 180
      in x - 2 * pi * of_int \<lfloor>x / (2 * pi)\<rfloor>)"

text \<open>
  An active catalogue object on the orbit of the scenario of the specification
  (inclination 51.6 degrees, ascending node 0, initial longitude 0), with a given
  identifier, start date and altitude.
\<close>

definition obiekt_testowy :: "int \<Rightarrow> int \<Rightarrow> real \<Rightarrow> ModelObiektuBD" where
  "obiekt_testowy ident epoka wysokosc =
     \<lparr>id_rekordu = ident, data_wprowadzenia = epoka, stan_operacyjny = ''active'',
      pozycja_startowa_lon = 0, id_orbity_powiazanej = 1,
      orbita_ref = \<lparr>wysokosc_km = wysokosc, kat_inklinacji = 516 / 10, wezel_wst = 0\<rparr>\<rparr>"

section \<open>Facts about the arithmetic\<close>

lemma py_mod_range:
  assumes "0 < m"
  shows "0 \<le> py_mod x m" and "py_mod x m < m"
proof -
  have "of_int \<lfloor>x / m\<rfloor> * m \<le> x" using assms by (rule floor_divide_lower)
  then show "0 \<le> py_mod x m" by (simp add: py_mod_def mult.commute)
  have "x < (of_int \<lfloor>x / m\<rfloor> + 1) * m" using assms by (rule floor_divide_upper)
  then show "py_mod x m < m" by (simp add: py_mod_def algebra_simps)
qed

lemma normalizuj_dlugosc_zakres:
  "- 180 \<le> normalizuj_dlugosc x" "normalizuj_dlugosc x < 180"
  using py_mod_range [of 360 "x + 180"] by (simp_all add: normalizuj_dlugosc_def)

lemma normalizuj_dlugosc_przystaje:
  "\<exists>k::int. normalizuj_dlugosc x = x + 360 * of_int k"
  by (rule exI [of _ "- \<lfloor>(x + 180) / 360\<rfloor>"]) (simp add: normalizuj_dlugosc_def py_mod_def)

lemma sin_sin_zakres: "- 1 \<le> sin a * sin (b::real)" "sin a * sin b \<le> 1"
proof -
  have "\<bar>sin a * sin b\<bar> \<le> 1 * 1"
    unfolding abs_mult by (rule mult_mono) simp_all
  then show "- 1 \<le> sin a * sin b" "sin a * sin b \<le> 1" by linarith+
qed

lemma py_asin_sin_sin: "py_asin (sin a * sin b) = Inr (arcsin (sin a * sin b))"
  using sin_sin_zakres [of a b] by (simp add: py_asin_def)

lemma okres_ok:
  assumes "0 \<le> polOs_wielka p" "polOs_wielka p ^ 3 < PROG_NADMIARU"
  shows "oblicz_okres_orbitalny p = Inr (2 * pi * sqrt (polOs_wielka p ^ 3 / PARAMETR_GRAWIT_ZIEMI))"
  using assms
  by (simp add: oblicz_okres_orbitalny_def bind_blad_def py_pow_def py_sqrt_def PARAMETR_GRAWIT_ZIEMI_def)


lemma predkosc_ok:
  assumes "0 \<le> polOs_wielka p" "polOs_wielka p ^ 3 < PROG_NADMIARU"
  shows "oblicz_predkosc_katowa p =
         Inr (if EPSILON_NUMERYCZNY < 2 * pi * sqrt (polOs_wielka p ^ 3 / PARAMETR_GRAWIT_ZIEMI)
              then 2 * pi / (2 * pi * sqrt (polOs_wielka p ^ 3 / PARAMETR_GRAWIT_ZIEMI)) else 0)"
  by (simp add: oblicz_predkosc_katowa_def okres_ok [OF assms] bind_blad_def)

lemma propaguj_rozwin:
  assumes "oblicz_predkosc_katowa p = Inr om"
  shows "propaguj_pozycje p t l =
         Inr \<lparr>szer_geogr = degrees (arcsin (sin (radians (inklinacja_kat p))
                    * sin (py_mod (om * t + radians l) (2 * pi)))),
              dlug_geogr = normalizuj_dlugosc (degrees
                   (py_atan2 (cos (radians (inklinacja_kat p)) * sin (py_mod (om * t + radians l) (2 * pi)))
                             (cos (py_mod (om * t + radians l) (2 * pi)))
                    + radians (wezl_wstepujacy p))),
              wysokosc_npm = polOs_wielka p - SREDNICA_BAZOWA_ZIEMI\<rparr>"
  by (simp add: propaguj_pozycje_def assms bind_blad_def py_asin_sin_sin Let_def)

lemma predkosc_istnieje:
  assumes "0 \<le> polOs_wielka p" "polOs_wielka p ^ 3 < PROG_NADMIARU"
  shows "\<exists>om. oblicz_predkosc_katowa p = Inr om"
  by (simp add: predkosc_ok [OF assms])

lemma py_mod_zero: "py_mod 0 m = 0"
  by (simp add: py_mod_def)

lemma normalizuj_zero: "normalizuj_dlugosc 0 = 0"
  by (simp add: normalizuj_dlugosc_def py_mod_def)

lemma propaguj_w_epoce:
  assumes "oblicz_predkosc_katowa p = Inr om" "wezl_wstepujacy p = 0"
  shows "propaguj_pozycje p 0 0 =
         Inr \<lparr>szer_geogr = 0, dlug_geogr = 0,
              wysokosc_npm = polOs_wielka p - SREDNICA_BAZOWA_ZIEMI\<rparr>"
  by (simp add: propaguj_rozwin [OF assms(1)] assms(2) radians_def degrees_def py_mod_zero
      py_atan2_def normalizuj_zero)

lemma prog_duzy: "(10::real) ^ 300 < PROG_NADMIARU"
  by (simp add: PROG_NADMIARU_def)



section \<open>Longitude normalisation\<close>




section \<open>Propagation\<close>

lemma argument_spec_py_mod:
  "argument_spec a t l0 = py_mod (predkosc_katowa_spec a * t + radians l0) (2 * pi)"
  by (simp add: argument_spec_def py_mod_def radians_def Let_def)

lemma predkosc_spec:
  assumes "polOs_wielka p ^ 3 < PROG_NADMIARU"
    and "EPSILON_NUMERYCZNY < 2 * pi * sqrt (polOs_wielka p ^ 3 / PARAMETR_GRAWIT_ZIEMI)"
  shows "oblicz_predkosc_katowa p = Inr (predkosc_katowa_spec (polOs_wielka p))"
proof -
  have "0 < EPSILON_NUMERYCZNY" by (simp add: EPSILON_NUMERYCZNY_def)
  with assms(2) have "0 < 2 * pi * sqrt (polOs_wielka p ^ 3 / PARAMETR_GRAWIT_ZIEMI)" by linarith
  then have "0 < sqrt (polOs_wielka p ^ 3 / PARAMETR_GRAWIT_ZIEMI)"
    by (simp add: zero_less_mult_iff)
  then have "0 < polOs_wielka p ^ 3 / PARAMETR_GRAWIT_ZIEMI" by simp
  then have "0 < polOs_wielka p ^ 3" by (simp add: PARAMETR_GRAWIT_ZIEMI_def zero_less_divide_iff)
  then have "0 \<le> polOs_wielka p"
    by (metis less_le_not_le not_le power_less_zero_eq odd_numeral)
  from predkosc_ok [OF this assms(1)] assms(2) show ?thesis
    by (simp add: predkosc_katowa_spec_def PARAMETR_GRAWIT_ZIEMI_def)
qed

lemma propaguj_wysokosc:
  assumes "propaguj_pozycje p t l = Inr w"
  shows "wysokosc_npm w = polOs_wielka p - SREDNICA_BAZOWA_ZIEMI"
proof -
  from assms obtain om where om: "oblicz_predkosc_katowa p = Inr om"
    by (cases "oblicz_predkosc_katowa p") (simp_all add: propaguj_pozycje_def bind_blad_def)
  from assms show ?thesis unfolding propaguj_rozwin [OF om] by auto
qed

lemma propaguj_wzor:
  assumes "polOs_wielka p ^ 3 < PROG_NADMIARU"
    and "EPSILON_NUMERYCZNY < 2 * pi * sqrt (polOs_wielka p ^ 3 / PARAMETR_GRAWIT_ZIEMI)"
  shows "\<exists>w. propaguj_pozycje p t l0 = Inr w
     \<and> szer_geogr w = degrees (arcsin (sin (radians (inklinacja_kat p))
                                       * sin (argument_spec (polOs_wielka p) t l0)))
     \<and> - 180 \<le> dlug_geogr w \<and> dlug_geogr w < 180
     \<and> (\<exists>k::int. dlug_geogr w =
            degrees (py_atan2 (cos (radians (inklinacja_kat p)) * sin (argument_spec (polOs_wielka p) t l0))
                              (cos (argument_spec (polOs_wielka p) t l0))
                     + radians (wezl_wstepujacy p)) + 360 * of_int k)
     \<and> wysokosc_npm w = polOs_wielka p - 6371"
  unfolding propaguj_rozwin [OF predkosc_spec [OF assms]] argument_spec_py_mod
  using normalizuj_dlugosc_zakres normalizuj_dlugosc_przystaje
  by (simp add: SREDNICA_BAZOWA_ZIEMI_def)


lemma maly_pierwiastek:
  "sqrt ((1 / 10 ^ 5) ^ 3 / (3986004418 / 10000)) \<le> 1 / (8 * 10 ^ 9)"
  "1 / (4 * 10 ^ 10) < sqrt ((1 / 10 ^ 5) ^ 3 / (3986004418 / 10000))"
proof -
  show "sqrt ((1 / 10 ^ 5) ^ 3 / (3986004418 / 10000)) \<le> 1 / (8 * 10 ^ 9)"
    by (rule real_le_lsqrt) (simp_all add: power2_eq_square power_divide)
  show "1 / (4 * 10 ^ 10) < sqrt ((1 / 10 ^ 5) ^ 3 / (3986004418 / 10000))"
    by (rule real_less_rsqrt) (simp add: power2_eq_square power_divide)
qed

lemma maly_okres:
  "\<not> EPSILON_NUMERYCZNY < 2 * pi * sqrt ((1 / 10 ^ 5) ^ 3 / PARAMETR_GRAWIT_ZIEMI)"
proof -
  let ?s = "sqrt ((1 / 10 ^ 5) ^ 3 / (3986004418 / 10000))"
  have "0 \<le> ?s" by simp
  then have "2 * pi * ?s \<le> 2 * 4 * ?s"
    using pi_less_4 by (intro mult_right_mono mult_left_mono) simp_all
  also have "\<dots> \<le> 2 * 4 * (1 / (8 * 10 ^ 9))"
    using maly_pierwiastek(1) by (intro mult_left_mono) simp_all
  finally show ?thesis by (simp add: EPSILON_NUMERYCZNY_def PARAMETR_GRAWIT_ZIEMI_def)
qed

lemma mala_predkosc:
  "oblicz_predkosc_katowa \<lparr>polOs_wielka = 1 / 10 ^ 5, inklinacja_kat = i, wezl_wstepujacy = r\<rparr> = Inr 0"
proof -
  have "(1 / 10 ^ 5 :: real) ^ 3 < PROG_NADMIARU" by (simp add: PROG_NADMIARU_def power_divide)
  from predkosc_ok [of "\<lparr>polOs_wielka = 1 / 10 ^ 5, inklinacja_kat = i, wezl_wstepujacy = r\<rparr>"]
    this maly_okres
  show ?thesis by simp
qed

lemma propaguj_predkosc_zero:
  assumes "oblicz_predkosc_katowa p = Inr 0"
  shows "propaguj_pozycje p t l = propaguj_pozycje p 0 l"
  by (simp add: propaguj_rozwin [OF assms])

lemma propaguj_maly:
  "propaguj_pozycje \<lparr>polOs_wielka = 1 / 10 ^ 5, inklinacja_kat = 90, wezl_wstepujacy = 0\<rparr> t 0
   = Inr \<lparr>szer_geogr = 0, dlug_geogr = 0, wysokosc_npm = 1 / 10 ^ 5 - 6371\<rparr>"
  unfolding propaguj_predkosc_zero [OF mala_predkosc, of 90 0 t 0]
  using propaguj_w_epoce [OF mala_predkosc, of 90 0]
  by (simp add: SREDNICA_BAZOWA_ZIEMI_def)

lemma argument_spec_maly:
  "0 < argument_spec (1 / 10 ^ 5) (5 / 10 ^ 11) 0"
  "argument_spec (1 / 10 ^ 5) (5 / 10 ^ 11) 0 < pi"
proof -
  let ?s = "sqrt ((1 / 10 ^ 5) ^ 3 / (3986004418 / 10000))"
  let ?x = "predkosc_katowa_spec (1 / 10 ^ 5) * (5 / 10 ^ 11) + 0 * pi / 180"
  have s: "0 < ?s" using maly_pierwiastek(2) by (simp add: less_trans [rotated])
  have x: "?x = (5 / 10 ^ 11) / ?s"
    by (simp add: predkosc_katowa_spec_def)
  have x0: "0 < ?x" unfolding x using s by simp
  have "(5 / 10 ^ 11) / ?s < (5 / 10 ^ 11) / (1 / (4 * 10 ^ 10))"
    using maly_pierwiastek(2) by (intro divide_strict_left_mono) (simp_all add: s)
  then have x2: "?x < 2" unfolding x by simp
  with pi_ge_two have xp: "?x < pi" by linarith
  have "0 \<le> ?x / (2 * pi)" "?x / (2 * pi) < 1" using x0 xp by (simp_all)
  then have "\<lfloor>?x / (2 * pi)\<rfloor> = 0" by (simp add: floor_eq_iff)
  then have a: "argument_spec (1 / 10 ^ 5) (5 / 10 ^ 11) 0 = ?x"
    by (simp only: argument_spec_def Let_def)
  show "0 < argument_spec (1 / 10 ^ 5) (5 / 10 ^ 11) 0" unfolding a by (rule x0)
  show "argument_spec (1 / 10 ^ 5) (5 / 10 ^ 11) 0 < pi" unfolding a by (rule xp)
qed

lemma szerokosc_spec_mala:
  "0 < degrees (arcsin (sin (radians 90) * sin (argument_spec (1 / 10 ^ 5) (5 / 10 ^ 11) 0)))"
proof -
  let ?u = "argument_spec (1 / 10 ^ 5) (5 / 10 ^ 11) 0"
  have r: "radians 90 = pi / 2" by (simp add: radians_def)
  have "0 < sin ?u" using argument_spec_maly by (rule sin_gt_zero)
  moreover have "sin ?u \<le> 1" by simp
  ultimately have "arcsin 0 < arcsin (sin ?u)" by (intro arcsin_less_arcsin) simp_all
  then show ?thesis by (simp add: r degrees_def)
qed

lemma propaguj_nadmiar:
  "propaguj_pozycje \<lparr>polOs_wielka = 2 ^ 400, inklinacja_kat = i, wezl_wstepujacy = r\<rparr> t l
   = Inl OverflowError"
  by (simp add: propaguj_pozycje_def oblicz_predkosc_katowa_def oblicz_okres_orbitalny_def
      bind_blad_def py_pow_def PROG_NADMIARU_def)

lemma przyklad_okres:
  "EPSILON_NUMERYCZNY < 2 * pi * sqrt (6921 ^ 3 / PARAMETR_GRAWIT_ZIEMI)"
proof -
  have "1 \<le> sqrt (6921 ^ 3 / PARAMETR_GRAWIT_ZIEMI)"
    by (rule real_sqrt_ge_one) (simp add: PARAMETR_GRAWIT_ZIEMI_def)
  then have "2 * 2 * 1 \<le> 2 * pi * sqrt (6921 ^ 3 / PARAMETR_GRAWIT_ZIEMI)"
    using pi_ge_two by (intro mult_mono) simp_all
  then show ?thesis by (simp add: EPSILON_NUMERYCZNY_def)
qed

lemma predkosc_zero_polos:
  "oblicz_predkosc_katowa \<lparr>polOs_wielka = 0, inklinacja_kat = i, wezl_wstepujacy = r\<rparr> = Inr 0"
  by (simp add: oblicz_predkosc_katowa_def oblicz_okres_orbitalny_def bind_blad_def py_pow_def
      py_sqrt_def PROG_NADMIARU_def EPSILON_NUMERYCZNY_def)

text \<open>
  Claim C1, as amended. For orbital parameters whose cubed semi-major axis is inside the
  double range and whose period \<open>2 * pi * sqrt (a^3 / 398600.4418)\<close> exceeds the epsilon
  \<open>1e-9\<close>, for every elapsed time \<open>t\<close> and initial longitude \<open>l0\<close>, the propagation
  returns the coordinate with latitude \<open>degrees (asin (sin i_rad * sin u))\<close>, with the
  longitude that lies in [-180, 180) and differs by a multiple of 360 from
  \<open>degrees (atan2 (cos i_rad * sin u, cos u) + raan_rad)\<close>, and with altitude
  \<open>a - 6371\<close>, where \<open>u\<close> is the argument of the specification; the altitude is the
  same at every elapsed time.
\<close>

theorem propaguj_pozycje_wzor:
  assumes "polOs_wielka p ^ 3 < PROG_NADMIARU"
    and "EPSILON_NUMERYCZNY < 2 * pi * sqrt (polOs_wielka p ^ 3 / PARAMETR_GRAWIT_ZIEMI)"
  shows "\<exists>w. propaguj_pozycje p t l0 = Inr w
     \<and> szer_geogr w = degrees (arcsin (sin (radians (inklinacja_kat p))
                                       * sin (argument_spec (polOs_wielka p) t l0)))
     \<and> - 180 \<le> dlug_geogr w \<and> dlug_geogr w < 180
     \<and> (\<exists>k::int. dlug_geogr w =
            degrees (py_atan2 (cos (radians (inklinacja_kat p)) * sin (argument_spec (polOs_wielka p) t l0))
                              (cos (argument_spec (polOs_wielka p) t l0))
                     + radians (wezl_wstepujacy p)) + 360 * of_int k)
     \<and> wysokosc_npm w = polOs_wielka p - 6371
     \<and> (\<forall>t' w'. propaguj_pozycje p t' l0 = Inr w' \<longrightarrow> wysokosc_npm w' = wysokosc_npm w)"
proof -
  from propaguj_wzor [OF assms, of t l0] obtain w where
    w: "propaguj_pozycje p t l0 = Inr w" and
    r: "szer_geogr w = degrees (arcsin (sin (radians (inklinacja_kat p))
                                       * sin (argument_spec (polOs_wielka p) t l0)))
     \<and> - 180 \<le> dlug_geogr w \<and> dlug_geogr w < 180
     \<and> (\<exists>k::int. dlug_geogr w =
            degrees (py_atan2 (cos (radians (inklinacja_kat p)) * sin (argument_spec (polOs_wielka p) t l0))
                              (cos (argument_spec (polOs_wielka p) t l0))
                     + radians (wezl_wstepujacy p)) + 360 * of_int k)
     \<and> wysokosc_npm w = polOs_wielka p - 6371"
    by blast
  have "\<forall>t' w'. propaguj_pozycje p t' l0 = Inr w' \<longrightarrow> wysokosc_npm w' = wysokosc_npm w"
    using propaguj_wysokosc w by simp
  with w r show ?thesis by blast
qed

theorem propaguj_pozycje_wzor_witness:
  "(6921::real) ^ 3 < PROG_NADMIARU \<and>
   EPSILON_NUMERYCZNY < 2 * pi * sqrt (6921 ^ 3 / PARAMETR_GRAWIT_ZIEMI) \<and>
   (\<exists>w. propaguj_pozycje \<lparr>polOs_wielka = 6921, inklinacja_kat = 516 / 10, wezl_wstepujacy = 0\<rparr> 60 10
          = Inr w
        \<and> wysokosc_npm w = 550 \<and> - 180 \<le> dlug_geogr w \<and> dlug_geogr w < 180)"
proof -
  have a: "(6921::real) ^ 3 < PROG_NADMIARU" by (simp add: PROG_NADMIARU_def)
  from propaguj_pozycje_wzor
    [of "\<lparr>polOs_wielka = 6921, inklinacja_kat = 516 / 10, wezl_wstepujacy = 0\<rparr>" 60 10]
    a przyklad_okres
  show ?thesis by auto
qed

text \<open>
  The claim as written fails for a semi-major axis of \<open>1e-5\<close> km: the period is below
  the epsilon, the code uses the angular velocity 0 and returns latitude 0 at every elapsed
  time, while the formula of the claim gives a positive latitude at \<open>t = 5e-11\<close>. It
  also fails for a semi-major axis of \<open>2^400\<close> km, where the cube leaves the double
  range and the code raises.
\<close>

theorem propaguj_pozycje_wzor_counterexample:
  "propaguj_pozycje \<lparr>polOs_wielka = 1 / 10 ^ 5, inklinacja_kat = 90, wezl_wstepujacy = 0\<rparr>
       (5 / 10 ^ 11) 0
     = Inr \<lparr>szer_geogr = 0, dlug_geogr = 0, wysokosc_npm = 1 / 10 ^ 5 - 6371\<rparr> \<and>
   0 < degrees (arcsin (sin (radians 90) * sin (argument_spec (1 / 10 ^ 5) (5 / 10 ^ 11) 0))) \<and>
   propaguj_pozycje \<lparr>polOs_wielka = 2 ^ 400, inklinacja_kat = 90, wezl_wstepujacy = 0\<rparr>
       (5 / 10 ^ 11) 0
     = Inl OverflowError"
  using propaguj_maly szerokosc_spec_mala propaguj_nadmiar by simp

text \<open>
  Claim C10, as amended. \<^verbatim>\<open>propaguj_pozycje\<close> returns a coordinate, without raising,
  for every orbital parameters with a non-negative semi-major axis whose cube is inside the
  double range, every elapsed time and every initial longitude. The argument of
  \<^verbatim>\<open>asin\<close> always lies in [-1, 1], so \<^verbatim>\<open>asin\<close> never raises. When the angular
  velocity is exactly 0, the function returns one and the same coordinate at every elapsed
  time.
\<close>

theorem propaguj_pozycje_totalne:
  "(0 \<le> polOs_wielka p \<and> polOs_wielka p ^ 3 < PROG_NADMIARU
      \<longrightarrow> (\<exists>w. propaguj_pozycje p t l = Inr w)) \<and>
   (- 1 \<le> sin (radians i) * sin u \<and> sin (radians i) * sin u \<le> 1
      \<and> py_asin (sin (radians i) * sin u) = Inr (arcsin (sin (radians i) * sin u))) \<and>
   (oblicz_predkosc_katowa q = Inr 0
      \<longrightarrow> (\<exists>w. \<forall>t'. propaguj_pozycje q t' l = Inr w))"
proof (intro conjI impI)
  assume "0 \<le> polOs_wielka p \<and> polOs_wielka p ^ 3 < PROG_NADMIARU"
  then obtain om where "oblicz_predkosc_katowa p = Inr om"
    using predkosc_istnieje by blast
  then show "\<exists>w. propaguj_pozycje p t l = Inr w"
    by (simp add: propaguj_rozwin)
next
  show "- 1 \<le> sin (radians i) * sin u" "sin (radians i) * sin u \<le> 1"
    by (rule sin_sin_zakres)+
  show "py_asin (sin (radians i) * sin u) = Inr (arcsin (sin (radians i) * sin u))"
    by (rule py_asin_sin_sin)
next
  assume z: "oblicz_predkosc_katowa q = Inr 0"
  have "\<forall>t'. propaguj_pozycje q t' l = propaguj_pozycje q 0 l"
    using propaguj_predkosc_zero [OF z] by simp
  moreover have "\<exists>w. propaguj_pozycje q 0 l = Inr w"
    by (simp add: propaguj_rozwin [OF z])
  ultimately show "\<exists>w. \<forall>t'. propaguj_pozycje q t' l = Inr w" by metis
qed

theorem propaguj_pozycje_totalne_witness:
  "(\<exists>w. propaguj_pozycje \<lparr>polOs_wielka = 6921, inklinacja_kat = 516 / 10, wezl_wstepujacy = 0\<rparr> 60 10
          = Inr w) \<and>
   oblicz_predkosc_katowa \<lparr>polOs_wielka = 0, inklinacja_kat = 516 / 10, wezl_wstepujacy = 0\<rparr> = Inr 0 \<and>
   (\<exists>w. \<forall>t'. propaguj_pozycje \<lparr>polOs_wielka = 0, inklinacja_kat = 516 / 10, wezl_wstepujacy = 0\<rparr> t' 10
          = Inr w)"
proof -
  have a: "(0::real) \<le> 6921 \<and> (6921::real) ^ 3 < PROG_NADMIARU" by (simp add: PROG_NADMIARU_def)
  note t = propaguj_pozycje_totalne
    [of "\<lparr>polOs_wielka = 6921, inklinacja_kat = 516 / 10, wezl_wstepujacy = 0\<rparr>" 60 10 0 0
        "\<lparr>polOs_wielka = 0, inklinacja_kat = 516 / 10, wezl_wstepujacy = 0\<rparr>"]
  from t a predkosc_zero_polos [of "516 / 10" 0] show ?thesis by simp
qed

text \<open>
  The claim as written fails for the finite semi-major axis \<open>2^400\<close> km: its cube is
  outside the double range and the float power raises OverflowError.
\<close>

theorem propaguj_pozycje_totalne_counterexample:
  "propaguj_pozycje \<lparr>polOs_wielka = 2 ^ 400, inklinacja_kat = 0, wezl_wstepujacy = 0\<rparr> 0 0
     = Inl OverflowError"
  by (rule propaguj_nadmiar)

section \<open>The time grid\<close>

lemma py_round_of_int: "py_round (of_int k) = k"
  by (simp add: py_round_def)

lemma zaokraglij_postac:
  assumes "d \<noteq> 0"
  shows "zaokraglij_do_siatki t d =
         (if py_round (of_int t / of_int d) * d < DATETIME_MIN
             \<or> DATETIME_MAX < py_round (of_int t / of_int d) * d
          then Inl ValueError else Inr (py_round (of_int t / of_int d) * d))"
proof -
  have q: "real_of_int t / 10 ^ 6 / (real_of_int d / 10 ^ 6) = of_int t / of_int d"
    by simp
  have r: "of_int k * (real_of_int d / 10 ^ 6) * 10 ^ 6 = of_int (k * d)" for k :: int
    by simp
  show ?thesis using assms
    by (simp only: zaokraglij_do_siatki_def total_seconds_def Let_def fromtimestamp_utc_def
        q r py_round_of_int) simp
qed

lemma zaokraglij_zero: "zaokraglij_do_siatki t 0 = Inl ZeroDivisionError"
  by (simp add: zaokraglij_do_siatki_def total_seconds_def)







section \<open>Precision tokens\<close>













lemma parsuj_nowa_linia: "parsuj_precyzje (''5m'' @ [CHR 0x0A]) = Inr 300000000"
  by (simp add: parsuj_precyzje_def dopasuj_wzorzec_def czy_cyfra_def py_int_def
      mapowanie_def timedelta_def)




section \<open>The scan over the time grid\<close>

subsection \<open>Positions of a tick\<close>

lemma pozycje_petla_distinct:
  assumes "pozycje_petla obiekty t m = Inr m'" "distinct (map fst m)"
  shows "distinct (map fst m')"
  using assms
proof (induction obiekty arbitrary: m)
  case Nil
  then show ?case by simp
next
  case (Cons ob obiekty)
  then show ?case
    by (auto split: if_splits sum.splits option.splits intro: AList.distinct_update)
qed

lemma pozycje_petla_zrodlo:
  assumes "pozycje_petla obiekty t m = Inr m'" "map_of m' a = Some pa"
  shows "map_of m a = Some pa \<or>
         (\<exists>ob\<in>set obiekty. id_rekordu ob = a \<and> stan_operacyjny ob = ''active''
            \<and> oblicz_pozycje_w_czasie ob t = Inr (Some pa))"
  using assms
proof (induction obiekty arbitrary: m)
  case Nil
  then show ?case by simp
next
  case (Cons ob obiekty)
  show ?case
  proof (cases "stan_operacyjny ob \<noteq> ''active''")
    case True
    with Cons show ?thesis by auto
  next
    case False
    then have akt: "stan_operacyjny ob = ''active''" by simp
    show ?thesis
    proof (cases "oblicz_pozycje_w_czasie ob t")
      case (Inl e)
      with Cons.prems akt show ?thesis by simp
    next
      case (Inr r)
      show ?thesis
      proof (cases r)
        case None
        with Cons Inr akt show ?thesis by auto
      next
        case (Some p)
        with Cons.prems Inr akt
        have "pozycje_petla obiekty t (AList.update (id_rekordu ob) p m) = Inr m'" by simp
        from Cons.IH [OF this Cons.prems(2)] Inr Some akt show ?thesis
          by (auto simp: update_conv' split: if_splits)
      qed
    qed
  qed
qed

lemma pozycje_petla_pomija:
  assumes "oblicz_pozycje_w_czasie ob t = Inr None \<or> stan_operacyjny ob \<noteq> ''active''"
  shows "pozycje_petla (os1 @ ob # os2) t m = pozycje_petla (os1 @ os2) t m"
proof (induction os1 arbitrary: m)
  case Nil
  from assms show ?case by auto
next
  case (Cons x os1)
  then show ?case by (simp split: sum.splits option.splits)
qed

subsection \<open>Pairs of a tick\<close>

lemma petla_id_b_czlonek:
  assumes "petla_id_b m prog t a bs = Inr zs"
  shows "z \<in> set zs \<longleftrightarrow>
         (\<exists>b pa pb d. b \<in> set bs \<and> map_of m a = Some pa \<and> map_of m b = Some pb
            \<and> dystans_do pa pb = Inr d \<and> d < prog
            \<and> z = \<lparr>obiekt_id_a = min a b, obiekt_id_b = max a b, moment_czasu = t,
                   lokalizacja = pa, dystans_min = d\<rparr>)"
  using assms
proof (induction bs arbitrary: zs)
  case Nil
  then show ?case by simp
next
  case (Cons b bs)
  from Cons.prems obtain pa pb d dalsze where
    pa: "map_of m a = Some pa" and pb: "map_of m b = Some pb" and
    d: "dystans_do pa pb = Inr d" and
    r: "petla_id_b m prog t a bs = Inr dalsze" and
    zs: "zs = (if d < prog
               then \<lparr>obiekt_id_a = min a b, obiekt_id_b = max a b, moment_czasu = t,
                     lokalizacja = pa, dystans_min = d\<rparr> # dalsze
               else dalsze)"
    by (auto simp: bind_blad_def split: option.splits sum.splits)
  note ih = Cons.IH [OF r]
  show ?case
  proof
    assume "z \<in> set zs"
    then consider "d < prog" "z = \<lparr>obiekt_id_a = min a b, obiekt_id_b = max a b, moment_czasu = t,
                     lokalizacja = pa, dystans_min = d\<rparr>" | "z \<in> set dalsze"
      unfolding zs by (auto split: if_splits)
    then show "\<exists>b' pa pb d. b' \<in> set (b # bs) \<and> map_of m a = Some pa \<and> map_of m b' = Some pb
            \<and> dystans_do pa pb = Inr d \<and> d < prog
            \<and> z = \<lparr>obiekt_id_a = min a b', obiekt_id_b = max a b', moment_czasu = t,
                   lokalizacja = pa, dystans_min = d\<rparr>"
    proof cases
      case 1
      with pa pb d show ?thesis by (intro exI [of _ b]) auto
    next
      case 2
      with ih obtain b' pa' pb' d' where "b' \<in> set bs" "map_of m a = Some pa'"
        "map_of m b' = Some pb'" "dystans_do pa' pb' = Inr d'" "d' < prog"
        "z = \<lparr>obiekt_id_a = min a b', obiekt_id_b = max a b', moment_czasu = t,
                   lokalizacja = pa', dystans_min = d'\<rparr>" by blast
      then show ?thesis by (intro exI [of _ b']) auto
    qed
  next
    assume "\<exists>b' pa pb d. b' \<in> set (b # bs) \<and> map_of m a = Some pa \<and> map_of m b' = Some pb
            \<and> dystans_do pa pb = Inr d \<and> d < prog
            \<and> z = \<lparr>obiekt_id_a = min a b', obiekt_id_b = max a b', moment_czasu = t,
                   lokalizacja = pa, dystans_min = d\<rparr>"
    then obtain b' pa' pb' d' where b': "b' \<in> set (b # bs)" "map_of m a = Some pa'"
        "map_of m b' = Some pb'" "dystans_do pa' pb' = Inr d'" "d' < prog"
        "z = \<lparr>obiekt_id_a = min a b', obiekt_id_b = max a b', moment_czasu = t,
                   lokalizacja = pa', dystans_min = d'\<rparr>" by blast
    show "z \<in> set zs"
    proof (cases "b' = b")
      case True
      with b' pa pb d show ?thesis unfolding zs by auto
    next
      case False
      with b' have "b' \<in> set bs" by simp
      with b' ih have "z \<in> set dalsze" by blast
      then show ?thesis unfolding zs by simp
    qed
  qed
qed

lemma petla_id_b_dystans:
  assumes "petla_id_b m prog t a bs = Inr zs" "b \<in> set bs"
  shows "\<exists>pa pb d. map_of m a = Some pa \<and> map_of m b = Some pb \<and> dystans_do pa pb = Inr d"
  using assms
proof (induction bs arbitrary: zs)
  case Nil
  then show ?case by simp
next
  case (Cons x bs)
  from Cons.prems(1) obtain pa pb d dalsze where
    "map_of m a = Some pa" "map_of m x = Some pb" "dystans_do pa pb = Inr d"
    "petla_id_b m prog t a bs = Inr dalsze"
    by (auto simp: bind_blad_def split: option.splits sum.splits)
  with Cons.IH Cons.prems(2) show ?case by (cases "b = x") auto
qed


lemma petla_id_a_czlonek:
  assumes "petla_id_a m prog t ids = Inr zs" "sorted ids" "distinct ids"
  shows "z \<in> set zs \<longleftrightarrow>
         (\<exists>a b pa pb d. a \<in> set ids \<and> b \<in> set ids \<and> a < b
            \<and> map_of m a = Some pa \<and> map_of m b = Some pb
            \<and> dystans_do pa pb = Inr d \<and> d < prog
            \<and> z = \<lparr>obiekt_id_a = a, obiekt_id_b = b, moment_czasu = t,
                   lokalizacja = pa, dystans_min = d\<rparr>)"
  using assms
proof (induction ids arbitrary: zs)
  case Nil
  then show ?case by simp
next
  case (Cons x ids)
  from Cons.prems(1) obtain pierwsze dalsze where
    p: "petla_id_b m prog t x ids = Inr pierwsze" and
    r: "petla_id_a m prog t ids = Inr dalsze" and
    zs: "zs = pierwsze @ dalsze"
    by (auto simp: bind_blad_def split: sum.splits)
  from Cons.prems have sd: "sorted ids" "distinct ids" and gt: "\<forall>b\<in>set ids. x < b"
    by (auto simp: less_le)
  note ih = Cons.IH [OF r sd]
  note ib = petla_id_b_czlonek [OF p, of z]
  have mm: "min x b = x \<and> max x b = b" if "b \<in> set ids" for b
    using gt that by (auto simp: min_def max_def)
  show ?case
  proof
    assume "z \<in> set zs"
    then consider "z \<in> set pierwsze" | "z \<in> set dalsze" unfolding zs by auto
    then show "\<exists>a b pa pb d. a \<in> set (x # ids) \<and> b \<in> set (x # ids) \<and> a < b
            \<and> map_of m a = Some pa \<and> map_of m b = Some pb
            \<and> dystans_do pa pb = Inr d \<and> d < prog
            \<and> z = \<lparr>obiekt_id_a = a, obiekt_id_b = b, moment_czasu = t,
                   lokalizacja = pa, dystans_min = d\<rparr>"
    proof cases
      case 1
      with ib obtain b pa pb d where b: "b \<in> set ids" "map_of m x = Some pa"
        "map_of m b = Some pb" "dystans_do pa pb = Inr d" "d < prog"
        "z = \<lparr>obiekt_id_a = min x b, obiekt_id_b = max x b, moment_czasu = t,
               lokalizacja = pa, dystans_min = d\<rparr>" by blast
      with mm [OF b(1)] gt show ?thesis
        by (intro exI [of _ x] exI [of _ b] exI [of _ pa] exI [of _ pb] exI [of _ d]) simp
    next
      case 2
      with ih obtain a b pa pb d where "a \<in> set ids" "b \<in> set ids" "a < b"
        "map_of m a = Some pa" "map_of m b = Some pb" "dystans_do pa pb = Inr d" "d < prog"
        "z = \<lparr>obiekt_id_a = a, obiekt_id_b = b, moment_czasu = t,
               lokalizacja = pa, dystans_min = d\<rparr>" by blast
      then show ?thesis
        by (intro exI [of _ a] exI [of _ b] exI [of _ pa] exI [of _ pb] exI [of _ d]) simp
    qed
  next
    assume "\<exists>a b pa pb d. a \<in> set (x # ids) \<and> b \<in> set (x # ids) \<and> a < b
            \<and> map_of m a = Some pa \<and> map_of m b = Some pb
            \<and> dystans_do pa pb = Inr d \<and> d < prog
            \<and> z = \<lparr>obiekt_id_a = a, obiekt_id_b = b, moment_czasu = t,
                   lokalizacja = pa, dystans_min = d\<rparr>"
    then obtain a b pa pb d where ab: "a \<in> set (x # ids)" "b \<in> set (x # ids)" "a < b"
        "map_of m a = Some pa" "map_of m b = Some pb" "dystans_do pa pb = Inr d" "d < prog"
        "z = \<lparr>obiekt_id_a = a, obiekt_id_b = b, moment_czasu = t,
               lokalizacja = pa, dystans_min = d\<rparr>" by blast
    have bi: "b \<in> set ids" using ab(1,2,3) gt by auto
    show "z \<in> set zs"
    proof (cases "a = x")
      case True
      with ab bi mm [OF bi] ib have "z \<in> set pierwsze" by auto
      then show ?thesis unfolding zs by simp
    next
      case False
      with ab(1) have "a \<in> set ids" by simp
      with ab bi ih have "z \<in> set dalsze" by blast
      then show ?thesis unfolding zs by simp
    qed
  qed
qed

lemma petla_id_a_dystans:
  assumes "petla_id_a m prog t ids = Inr zs" "sorted ids" "distinct ids"
    and "a \<in> set ids" "b \<in> set ids" "a < b"
  shows "\<exists>pa pb d. map_of m a = Some pa \<and> map_of m b = Some pb \<and> dystans_do pa pb = Inr d"
  using assms
proof (induction ids arbitrary: zs)
  case Nil
  then show ?case by simp
next
  case (Cons x ids)
  from Cons.prems(1) obtain pierwsze dalsze where
    p: "petla_id_b m prog t x ids = Inr pierwsze" and
    r: "petla_id_a m prog t ids = Inr dalsze"
    by (auto simp: bind_blad_def split: sum.splits)
  from Cons.prems have sd: "sorted ids" "distinct ids" and gt: "\<forall>b\<in>set ids. x < b"
    by (auto simp: less_le)
  have bi: "b \<in> set ids" using Cons.prems(4,5,6) gt by auto
  show ?case
  proof (cases "a = x")
    case True
    with petla_id_b_dystans [OF p bi] show ?thesis by simp
  next
    case False
    with Cons.prems(4) have "a \<in> set ids" by simp
    from Cons.IH [OF r sd this bi Cons.prems(6)] show ?thesis .
  qed
qed

lemma klucze_posortowane:
  assumes "distinct (map fst m)"
  shows "sorted (sort (map fst m))" "distinct (sort (map fst m))"
    "a \<in> set (sort (map fst m)) \<longleftrightarrow> map_of m a \<noteq> None"
  using assms by (auto simp: map_of_eq_None_iff)

lemma zdarzenia_kroku_czlonek:
  assumes "zdarzenia_kroku obiekty prog t = Inr zs"
  shows "\<exists>m. pozycje_petla obiekty t [] = Inr m \<and>
         (\<forall>z. z \<in> set zs \<longleftrightarrow>
           (\<exists>a b pa pb d. a < b \<and> map_of m a = Some pa \<and> map_of m b = Some pb
              \<and> dystans_do pa pb = Inr d \<and> d < prog
              \<and> z = \<lparr>obiekt_id_a = a, obiekt_id_b = b, moment_czasu = t,
                     lokalizacja = pa, dystans_min = d\<rparr>))"
proof -
  from assms obtain m where m: "pozycje_petla obiekty t [] = Inr m"
    and r: "petla_id_a m prog t (sort (map fst m)) = Inr zs"
    by (auto simp: zdarzenia_kroku_def bind_blad_def split: sum.splits)
  have dm: "distinct (map fst m)" using pozycje_petla_distinct [OF m] by simp
  note k = klucze_posortowane [OF dm]
  have "z \<in> set zs \<longleftrightarrow>
           (\<exists>a b pa pb d. a < b \<and> map_of m a = Some pa \<and> map_of m b = Some pb
              \<and> dystans_do pa pb = Inr d \<and> d < prog
              \<and> z = \<lparr>obiekt_id_a = a, obiekt_id_b = b, moment_czasu = t,
                     lokalizacja = pa, dystans_min = d\<rparr>)" for z
    unfolding petla_id_a_czlonek [OF r k(1,2)] k(3) by blast
  with m show ?thesis by blast
qed

lemma zdarzenia_kroku_dystans:
  assumes "zdarzenia_kroku obiekty prog t = Inr zs" "pozycje_petla obiekty t [] = Inr m"
    and "map_of m a = Some pa" "map_of m b = Some pb" "a < b"
  shows "\<exists>d. dystans_do pa pb = Inr d"
proof -
  from assms(1,2) have r: "petla_id_a m prog t (sort (map fst m)) = Inr zs"
    by (auto simp: zdarzenia_kroku_def bind_blad_def split: sum.splits)
  have dm: "distinct (map fst m)" using pozycje_petla_distinct [OF assms(2)] by simp
  note k = klucze_posortowane [OF dm]
  from petla_id_a_dystans [OF r k(1,2), of a b] assms(3,4,5) k(3) show ?thesis by auto
qed


subsection \<open>Order of the events of a tick\<close>

lemma petla_id_b_porzadek:
  assumes "petla_id_b m prog t a bs = Inr zs" "sorted bs" "distinct bs" "\<forall>b\<in>set bs. a < b"
  shows "sorted_wrt (\<lambda>z z'. obiekt_id_b z < obiekt_id_b z') zs
         \<and> (\<forall>z\<in>set zs. obiekt_id_a z = a \<and> obiekt_id_b z \<in> set bs)"
  using assms
proof (induction bs arbitrary: zs)
  case Nil
  then show ?case by simp
next
  case (Cons b bs)
  from Cons.prems(1) obtain pa d dalsze where
    r: "petla_id_b m prog t a bs = Inr dalsze" and
    zs: "zs = (if d < prog
               then \<lparr>obiekt_id_a = min a b, obiekt_id_b = max a b, moment_czasu = t,
                     lokalizacja = pa, dystans_min = d\<rparr> # dalsze
               else dalsze)"
    by (auto simp: bind_blad_def split: option.splits sum.splits)
  from Cons.prems have sd: "sorted bs" "distinct bs" "\<forall>b\<in>set bs. a < b"
    and gt: "\<forall>c\<in>set bs. b < c" and ab: "a < b"
    by (auto simp: less_le)
  from Cons.IH [OF r sd] have
    ih: "sorted_wrt (\<lambda>z z'. obiekt_id_b z < obiekt_id_b z') dalsze"
        "\<forall>z\<in>set dalsze. obiekt_id_a z = a \<and> obiekt_id_b z \<in> set bs" by simp_all
  from ab have mm: "min a b = a" "max a b = b" by simp_all
  show ?case unfolding zs using ih gt by (auto simp: mm)
qed

lemma petla_id_a_porzadek:
  assumes "petla_id_a m prog t ids = Inr zs" "sorted ids" "distinct ids"
  shows "sorted_wrt (\<lambda>z z'. obiekt_id_a z < obiekt_id_a z'
                       \<or> (obiekt_id_a z = obiekt_id_a z' \<and> obiekt_id_b z < obiekt_id_b z')) zs
         \<and> (\<forall>z\<in>set zs. obiekt_id_a z \<in> set ids \<and> obiekt_id_b z \<in> set ids)"
  using assms
proof (induction ids arbitrary: zs)
  case Nil
  then show ?case by simp
next
  case (Cons x ids)
  from Cons.prems(1) obtain pierwsze dalsze where
    p: "petla_id_b m prog t x ids = Inr pierwsze" and
    r: "petla_id_a m prog t ids = Inr dalsze" and
    zs: "zs = pierwsze @ dalsze"
    by (auto simp: bind_blad_def split: sum.splits)
  from Cons.prems have sd: "sorted ids" "distinct ids" and gt: "\<forall>b\<in>set ids. x < b"
    by (auto simp: less_le)
  from petla_id_b_porzadek [OF p sd gt] have
    pb: "sorted_wrt (\<lambda>z z'. obiekt_id_b z < obiekt_id_b z') pierwsze"
        "\<forall>z\<in>set pierwsze. obiekt_id_a z = x \<and> obiekt_id_b z \<in> set ids" by simp_all
  from Cons.IH [OF r sd] have
    ih: "sorted_wrt (\<lambda>z z'. obiekt_id_a z < obiekt_id_a z'
                       \<or> (obiekt_id_a z = obiekt_id_a z' \<and> obiekt_id_b z < obiekt_id_b z')) dalsze"
        "\<forall>z\<in>set dalsze. obiekt_id_a z \<in> set ids \<and> obiekt_id_b z \<in> set ids" by simp_all
  have p1: "sorted_wrt (\<lambda>z z'. obiekt_id_a z < obiekt_id_a z'
                       \<or> (obiekt_id_a z = obiekt_id_a z' \<and> obiekt_id_b z < obiekt_id_b z')) pierwsze"
    using pb by (auto simp: sorted_wrt_iff_nth_less)
  have cross: "\<forall>z\<in>set pierwsze. \<forall>z'\<in>set dalsze. obiekt_id_a z < obiekt_id_a z'"
    using pb(2) ih(2) gt by auto
  show ?case unfolding zs sorted_wrt_append using p1 ih pb(2) cross by auto
qed

lemma zdarzenia_kroku_porzadek:
  assumes "zdarzenia_kroku obiekty prog t = Inr zs"
  shows "sorted_wrt (\<lambda>z z'. obiekt_id_a z < obiekt_id_a z'
                       \<or> (obiekt_id_a z = obiekt_id_a z' \<and> obiekt_id_b z < obiekt_id_b z')) zs"
proof -
  from assms obtain m where m: "pozycje_petla obiekty t [] = Inr m"
    and r: "petla_id_a m prog t (sort (map fst m)) = Inr zs"
    by (auto simp: zdarzenia_kroku_def bind_blad_def split: sum.splits)
  have dm: "distinct (map fst m)" using pozycje_petla_distinct [OF m] by simp
  note k = klucze_posortowane [OF dm]
  from petla_id_a_porzadek [OF r k(1,2)] show ?thesis by simp
qed

subsection \<open>The loop over the grid\<close>

lemma datetime_dodaj_wynik:
  "datetime_dodaj dt td = Inr w \<longleftrightarrow> w = dt + td \<and> DATETIME_MIN \<le> w \<and> w \<le> DATETIME_MAX"
  by (auto simp: datetime_dodaj_def Let_def)

lemma petla_siatki_krok:
  assumes "petla_siatki obiekty prog delta koniec cur acc = Some (Inr zs)" "cur \<le> koniec"
  shows "\<exists>nowe. zdarzenia_kroku obiekty prog cur = Inr nowe
           \<and> DATETIME_MIN \<le> cur + delta \<and> cur + delta \<le> DATETIME_MAX
           \<and> petla_siatki obiekty prog delta koniec (cur + delta) (acc @ nowe) = Some (Inr zs)"
proof -
  from assms obtain nowe where n: "zdarzenia_kroku obiekty prog cur = Inr nowe"
    by (subst (asm) petla_siatki.simps) (auto split: sum.splits)
  from assms n obtain nast where d: "datetime_dodaj cur delta = Inr nast"
    by (subst (asm) petla_siatki.simps) (auto split: sum.splits)
  from assms n d have "petla_siatki obiekty prog delta koniec nast (acc @ nowe) = Some (Inr zs)"
    by (subst (asm) petla_siatki.simps) simp
  with n d show ?thesis by (auto simp: datetime_dodaj_wynik)
qed

lemma petla_siatki_koniec:
  assumes "\<not> cur \<le> koniec"
  shows "petla_siatki obiekty prog delta koniec cur acc = Some (Inr acc)"
  using assms by (subst petla_siatki.simps) simp

lemma petla_siatki_zwraca_dod:
  assumes "0 < delta"
  shows "\<exists>r. petla_siatki obiekty prog delta koniec cur acc = Some r"
proof (induction "nat (koniec - cur + 1)" arbitrary: cur acc rule: less_induct)
  case less
  show ?case
  proof (cases "cur \<le> koniec")
    case False
    then show ?thesis by (simp add: petla_siatki_koniec)
  next
    case True
    show ?thesis
    proof (cases "zdarzenia_kroku obiekty prog cur")
      case (Inl e)
      with True show ?thesis by (subst petla_siatki.simps) simp
    next
      case (Inr nowe)
      show ?thesis
      proof (cases "datetime_dodaj cur delta")
        case (Inl e)
        with True Inr show ?thesis by (subst petla_siatki.simps) simp
      next
        case nast: (Inr nast)
        then have "nast = cur + delta" by (simp add: datetime_dodaj_wynik)
        with assms True have "nat (koniec - nast + 1) < nat (koniec - cur + 1)" by simp
        from less [OF this, of "acc @ nowe"] True Inr nast show ?thesis
          by (subst petla_siatki.simps) simp
      qed
    qed
  qed
qed

lemma petla_siatki_zwraca_uj:
  assumes "delta < 0"
  shows "\<exists>r. petla_siatki obiekty prog delta koniec cur acc = Some r"
proof (induction "nat (cur - DATETIME_MIN + 1)" arbitrary: cur acc rule: less_induct)
  case less
  show ?case
  proof (cases "cur \<le> koniec")
    case False
    then show ?thesis by (simp add: petla_siatki_koniec)
  next
    case True
    show ?thesis
    proof (cases "zdarzenia_kroku obiekty prog cur")
      case (Inl e)
      with True show ?thesis by (subst petla_siatki.simps) simp
    next
      case (Inr nowe)
      show ?thesis
      proof (cases "datetime_dodaj cur delta")
        case (Inl e)
        with True Inr show ?thesis by (subst petla_siatki.simps) simp
      next
        case nast: (Inr nast)
        then have "nast = cur + delta" "DATETIME_MIN \<le> nast" by (simp_all add: datetime_dodaj_wynik)
        with assms have "nat (nast - DATETIME_MIN + 1) < nat (cur - DATETIME_MIN + 1)" by simp
        from less [OF this, of "acc @ nowe"] True Inr nast show ?thesis
          by (subst petla_siatki.simps) simp
      qed
    qed
  qed
qed

lemma wykryj_zwraca:
  "\<exists>r. wykryj_zdarzenia_w_przedziale obiekty prog czas_start czas_koniec delta = Some r"
proof (cases "delta = 0")
  case True
  then show ?thesis by (simp add: wykryj_zdarzenia_w_przedziale_def zaokraglij_zero)
next
  case False
  then have "\<exists>r. petla_siatki obiekty prog delta k s [] = Some r" for k s
    using petla_siatki_zwraca_dod [of delta] petla_siatki_zwraca_uj [of delta]
    by (cases "0 < delta") auto
  then show ?thesis
    by (auto simp: wykryj_zdarzenia_w_przedziale_def split: sum.splits)
qed

lemma petla_siatki_zrodlo_og:
  assumes "petla_siatki obiekty prog delta koniec cur acc = Some r"
  shows "\<forall>zs z. r = Inr zs \<longrightarrow> z \<in> set zs \<longrightarrow> z \<in> set acc \<or>
         (\<exists>n nowe. cur + int n * delta \<le> koniec
            \<and> zdarzenia_kroku obiekty prog (cur + int n * delta) = Inr nowe \<and> z \<in> set nowe)"
proof (rule petla_siatki.raw_induct
    [where P = "\<lambda>obiekty prog delta koniec cur acc r.
       \<forall>zs z. r = Inr zs \<longrightarrow> z \<in> set zs \<longrightarrow> z \<in> set acc \<or>
         (\<exists>n nowe. cur + int n * delta \<le> koniec
            \<and> zdarzenia_kroku obiekty prog (cur + int n * delta) = Inr nowe \<and> z \<in> set nowe)",
     OF _ assms], goal_cases)
  case (1 petla obiekty prog delta koniec cur acc r)
  show ?case
  proof (cases "cur \<le> koniec")
    case False
    with 1(2) show ?thesis by auto
  next
    case True
    show ?thesis
    proof (intro allI impI)
      fix zs z assume r: "r = Inr zs" and z: "z \<in> set zs"
      from True 1(2) r obtain nowe nast where
        n: "zdarzenia_kroku obiekty prog cur = Inr nowe" and
        d: "datetime_dodaj cur delta = Inr nast" and
        p: "petla obiekty prog delta koniec nast (acc @ nowe) = Some r"
        by (auto split: sum.splits)
      have nast: "nast = cur + delta" using d by (simp add: datetime_dodaj_wynik)
      from 1(1) [OF p] r z consider "z \<in> set acc" | "z \<in> set nowe"
        | n' nowe' where "nast + int n' * delta \<le> koniec"
            "zdarzenia_kroku obiekty prog (nast + int n' * delta) = Inr nowe'" "z \<in> set nowe'"
        by auto
      then show "z \<in> set acc \<or>
         (\<exists>n nowe. cur + int n * delta \<le> koniec
            \<and> zdarzenia_kroku obiekty prog (cur + int n * delta) = Inr nowe \<and> z \<in> set nowe)"
      proof cases
        case 1
        then show ?thesis by simp
      next
        case 2
        with n True show ?thesis by (intro disjI2 exI [of _ 0] exI [of _ nowe]) simp
      next
        case 3
        then show ?thesis unfolding nast
          by (intro disjI2 exI [of _ "Suc n'"] exI [of _ nowe']) (simp add: algebra_simps)
      qed
    qed
  qed
qed

lemma petla_siatki_zrodlo:
  assumes "petla_siatki obiekty prog delta koniec cur acc = Some (Inr zs)" "z \<in> set zs"
  shows "z \<in> set acc \<or>
         (\<exists>n nowe. cur + int n * delta \<le> koniec
            \<and> zdarzenia_kroku obiekty prog (cur + int n * delta) = Inr nowe \<and> z \<in> set nowe)"
  using petla_siatki_zrodlo_og [OF assms(1)] assms(2) by blast

lemma petla_siatki_akumulator_og:
  assumes "petla_siatki obiekty prog delta koniec cur acc = Some r"
  shows "\<forall>zs. r = Inr zs \<longrightarrow> set acc \<subseteq> set zs"
proof (rule petla_siatki.raw_induct
    [where P = "\<lambda>obiekty prog delta koniec cur acc r. \<forall>zs. r = Inr zs \<longrightarrow> set acc \<subseteq> set zs",
     OF _ assms], goal_cases)
  case (1 petla obiekty prog delta koniec cur acc r)
  show ?case
  proof (cases "cur \<le> koniec")
    case False
    with 1(2) show ?thesis by auto
  next
    case True
    show ?thesis
    proof (intro allI impI)
      fix zs assume r: "r = Inr zs"
      from True 1(2) r obtain nowe nast where
        p: "petla obiekty prog delta koniec nast (acc @ nowe) = Some r"
        by (auto split: sum.splits)
      from 1(1) [OF p] r show "set acc \<subseteq> set zs" by simp
    qed
  qed
qed

lemma petla_siatki_akumulator:
  assumes "petla_siatki obiekty prog delta koniec cur acc = Some (Inr zs)"
  shows "set acc \<subseteq> set zs"
  using petla_siatki_akumulator_og [OF assms] by blast

lemma petla_siatki_kazdy_krok:
  assumes "petla_siatki obiekty prog delta koniec cur acc = Some (Inr zs)" "0 < delta"
    and "cur + int n * delta \<le> koniec"
  shows "\<exists>nowe. zdarzenia_kroku obiekty prog (cur + int n * delta) = Inr nowe
           \<and> set nowe \<subseteq> set zs"
  using assms
proof (induction n arbitrary: cur acc)
  case 0
  then have "cur \<le> koniec" by simp
  from petla_siatki_krok [OF "0.prems"(1) this] obtain nowe where
    n: "zdarzenia_kroku obiekty prog cur = Inr nowe" and
    p: "petla_siatki obiekty prog delta koniec (cur + delta) (acc @ nowe) = Some (Inr zs)"
    by blast
  from petla_siatki_akumulator [OF p] n show ?case by simp
next
  case (Suc n)
  have "0 \<le> int (Suc n) * delta" using Suc.prems(2) by simp
  with Suc.prems(3) have "cur \<le> koniec" by linarith
  from petla_siatki_krok [OF Suc.prems(1) this] obtain nowe where
    p: "petla_siatki obiekty prog delta koniec (cur + delta) (acc @ nowe) = Some (Inr zs)"
    by blast
  have "cur + delta + int n * delta \<le> koniec" using Suc.prems(3) by (simp add: algebra_simps)
  from Suc.IH [OF p Suc.prems(2) this] show ?case by (simp add: algebra_simps)
qed

subsection \<open>The scan on the scenario of two objects on one orbit\<close>

lemma oblicz_pozycje_w_czasie_przed:
  assumes "t < data_wprowadzenia ob"
  shows "oblicz_pozycje_w_czasie ob t = Inr None"
  using assms by (simp add: oblicz_pozycje_w_czasie_def)

lemma obiekt_testowy_w_epoce:
  assumes "0 \<le> 6371 + h" "(6371 + h) ^ 3 < PROG_NADMIARU"
  shows "oblicz_pozycje_w_czasie (obiekt_testowy i e h) e
         = Inr (Some \<lparr>szer_geogr = 0, dlug_geogr = 0, wysokosc_npm = h\<rparr>)"
proof -
  let ?p = "\<lparr>polOs_wielka = 6371 + h, inklinacja_kat = 516 / 10, wezl_wstepujacy = 0\<rparr>"
  from predkosc_istnieje [of ?p] assms obtain om where "oblicz_predkosc_katowa ?p = Inr om"
    by auto
  from propaguj_w_epoce [OF this] show ?thesis
    by (simp add: oblicz_pozycje_w_czasie_def obiekt_testowy_def total_seconds_def
        SREDNICA_BAZOWA_ZIEMI_def bind_blad_def)
qed

lemma dystans_do_ten_sam: "dystans_do w w = Inr 0"
  by (simp add: dystans_do_def bind_blad_def py_pow_def py_sqrt_def PROG_NADMIARU_def
      split: prod.splits)

lemma zdarzenia_kroku_para:
  assumes "0 \<le> 6371 + h" "(6371 + h) ^ 3 < PROG_NADMIARU" "0 < prog"
  shows "zdarzenia_kroku [obiekt_testowy 1 e h, obiekt_testowy 2 e h] prog e
         = Inr [\<lparr>obiekt_id_a = 1, obiekt_id_b = 2, moment_czasu = e,
                 lokalizacja = \<lparr>szer_geogr = 0, dlug_geogr = 0, wysokosc_npm = h\<rparr>,
                 dystans_min = 0\<rparr>]"
proof -
  have s: "stan_operacyjny (obiekt_testowy i e h) = ''active''"
    "id_rekordu (obiekt_testowy i e h) = i" for i
    by (simp_all add: obiekt_testowy_def)
  show ?thesis using assms(3)
    by (simp add: zdarzenia_kroku_def obiekt_testowy_w_epoce [OF assms(1,2)] s bind_blad_def
        dystans_do_ten_sam)
qed

lemma wykryj_para:
  assumes "0 \<le> 6371 + h" "(6371 + h) ^ 3 < PROG_NADMIARU" "0 < prog"
  shows "wykryj_zdarzenia_w_przedziale [obiekt_testowy 1 0 h, obiekt_testowy 2 0 h] prog
           0 20000000 60000000
         = Some (Inr [\<lparr>obiekt_id_a = 1, obiekt_id_b = 2, moment_czasu = 0,
                 lokalizacja = \<lparr>szer_geogr = 0, dlug_geogr = 0, wysokosc_npm = h\<rparr>,
                 dystans_min = 0\<rparr>])"
proof -
  have a: "zaokraglij_do_siatki 0 60000000 = Inr 0"
    by (simp add: zaokraglij_postac py_round_def DATETIME_MIN_def DATETIME_MAX_def)
  have b: "zaokraglij_do_siatki 20000000 60000000 = Inr 0"
    by (simp add: zaokraglij_postac py_round_def DATETIME_MIN_def DATETIME_MAX_def)
  have c: "datetime_dodaj 0 60000000 = Inr 60000000"
    by (simp add: datetime_dodaj_def DATETIME_MIN_def DATETIME_MAX_def)
  show ?thesis
    unfolding wykryj_zdarzenia_w_przedziale_def a b
    by (subst petla_siatki.simps)
       (simp add: zdarzenia_kroku_para [OF assms] c petla_siatki_koniec)
qed

lemma duzy_pierwiastek: "10 ^ 9 < sqrt ((6371 + 10 ^ 8) ^ 3 / (3986004418 / 10000))"
  by (rule real_less_rsqrt) simp

lemma oblicz_pozycje_zdegenerowana:
  "oblicz_pozycje \<lparr>polOs_wielka = 6371 + 10 ^ 8, inklinacja_kat = 516 / 10, wezl_wstepujacy = 0\<rparr>
     0 0 0 = Inl BladObliczenOrbitych"
proof -
  let ?s = "sqrt ((6371 + 10 ^ 8) ^ 3 / (3986004418 / 10000))"
  let ?p = "\<lparr>polOs_wielka = 6371 + 10 ^ 8, inklinacja_kat = 516 / 10, wezl_wstepujacy = 0\<rparr>"
  have s: "10 ^ 9 < ?s" by (rule duzy_pierwiastek)
  have "(0::real) < 10 ^ 9" by simp
  from this s have s0: "0 < ?s" by (rule less_trans)
  have "2 * 2 * 1 \<le> 2 * pi * ?s" using pi_ge_two s by (intro mult_mono) simp_all
  then have T: "EPSILON_NUMERYCZNY < 2 * pi * ?s" by (simp add: EPSILON_NUMERYCZNY_def)
  have "oblicz_predkosc_katowa ?p = Inr (2 * pi / (2 * pi * ?s))"
    using predkosc_ok [of ?p] T by (simp add: PROG_NADMIARU_def PARAMETR_GRAWIT_ZIEMI_def)
  moreover have "2 * pi / (2 * pi * ?s) = 1 / ?s" by simp
  moreover have "1 / ?s < 1 / 10 ^ 9" using s by (intro divide_strict_left_mono) simp_all
  moreover have "0 < 1 / ?s" using s0 by simp
  ultimately show ?thesis
    by (simp add: oblicz_pozycje_def total_seconds_def bind_blad_def EPSILON_NUMERYCZNY_def)
qed

lemma pozycje_para:
  assumes "0 \<le> 6371 + h" "(6371 + h) ^ 3 < PROG_NADMIARU"
  shows "pozycje_petla [obiekt_testowy 1 e h, obiekt_testowy 2 e h] e []
         = Inr [(1, \<lparr>szer_geogr = 0, dlug_geogr = 0, wysokosc_npm = h\<rparr>),
                (2, \<lparr>szer_geogr = 0, dlug_geogr = 0, wysokosc_npm = h\<rparr>)]"
proof -
  have s: "stan_operacyjny (obiekt_testowy i e h) = ''active''"
    "id_rekordu (obiekt_testowy i e h) = i" for i
    by (simp_all add: obiekt_testowy_def)
  show ?thesis by (simp add: obiekt_testowy_w_epoce [OF assms] s)
qed

subsection \<open>Events of the scan\<close>

lemma wykryj_petla:
  assumes "wykryj_zdarzenia_w_przedziale obiekty prog czas_start czas_koniec delta = Some (Inr zs)"
  shows "\<exists>s k. zaokraglij_do_siatki czas_start delta = Inr s
           \<and> zaokraglij_do_siatki czas_koniec delta = Inr k
           \<and> petla_siatki obiekty prog delta k s [] = Some (Inr zs)"
  using assms by (auto simp: wykryj_zdarzenia_w_przedziale_def split: sum.splits)

lemma wykryj_zrodlo:
  assumes "wykryj_zdarzenia_w_przedziale obiekty prog czas_start czas_koniec delta = Some (Inr zs)"
    and "z \<in> set zs"
  shows "\<exists>m pb. obiekt_id_a z < obiekt_id_b z
           \<and> pozycje_petla obiekty (moment_czasu z) [] = Inr m
           \<and> map_of m (obiekt_id_a z) = Some (lokalizacja z)
           \<and> map_of m (obiekt_id_b z) = Some pb
           \<and> dystans_do (lokalizacja z) pb = Inr (dystans_min z)
           \<and> dystans_min z < prog"
proof -
  from wykryj_petla [OF assms(1)] obtain s k where
    p: "petla_siatki obiekty prog delta k s [] = Some (Inr zs)" by blast
  from petla_siatki_zrodlo [OF p assms(2)] obtain n nowe where
    n: "zdarzenia_kroku obiekty prog (s + int n * delta) = Inr nowe" "z \<in> set nowe"
    by auto
  from zdarzenia_kroku_czlonek [OF n(1)] n(2) obtain m a b pa pb d where
    "pozycje_petla obiekty (s + int n * delta) [] = Inr m" "a < b"
    "map_of m a = Some pa" "map_of m b = Some pb" "dystans_do pa pb = Inr d" "d < prog"
    "z = \<lparr>obiekt_id_a = a, obiekt_id_b = b, moment_czasu = s + int n * delta,
          lokalizacja = pa, dystans_min = d\<rparr>"
    by blast
  then show ?thesis by auto
qed

text \<open>
  Claim C2. Every event that the scan over the time grid returns has the lower identifier
  first, and its location is the position that the position service computes, at the
  instant of the event, for the object with the lower identifier: it is the entry of that
  identifier in the dictionary of positions of the tick, not a value derived from both
  positions.
\<close>

theorem lokalizacja_zdarzenia:
  assumes "wykryj_zdarzenia_w_przedziale obiekty prog czas_start czas_koniec delta = Some (Inr zs)"
    and "z \<in> set zs"
  shows "obiekt_id_a z < obiekt_id_b z \<and>
         (\<exists>m. pozycje_petla obiekty (moment_czasu z) [] = Inr m
            \<and> map_of m (obiekt_id_a z) = Some (lokalizacja z)) \<and>
         (\<exists>ob\<in>set obiekty. id_rekordu ob = obiekt_id_a z \<and> stan_operacyjny ob = ''active''
            \<and> oblicz_pozycje_w_czasie ob (moment_czasu z) = Inr (Some (lokalizacja z)))"
proof -
  from wykryj_zrodlo [OF assms] obtain m where
    ab: "obiekt_id_a z < obiekt_id_b z" and
    m: "pozycje_petla obiekty (moment_czasu z) [] = Inr m" and
    l: "map_of m (obiekt_id_a z) = Some (lokalizacja z)" by blast
  from pozycje_petla_zrodlo [OF m l] ab m l show ?thesis by auto
qed

theorem lokalizacja_zdarzenia_witness:
  "wykryj_zdarzenia_w_przedziale [obiekt_testowy 1 0 550, obiekt_testowy 2 0 550]
       TOLERANCJA_ZBLIZENIA 0 20000000 60000000
     = Some (Inr [\<lparr>obiekt_id_a = 1, obiekt_id_b = 2, moment_czasu = 0,
                 lokalizacja = \<lparr>szer_geogr = 0, dlug_geogr = 0, wysokosc_npm = 550\<rparr>,
                 dystans_min = 0\<rparr>]) \<and>
   oblicz_pozycje_w_czasie (obiekt_testowy 1 0 550) 0
     = Inr (Some \<lparr>szer_geogr = 0, dlug_geogr = 0, wysokosc_npm = 550\<rparr>)"
proof -
  have w: "wykryj_zdarzenia_w_przedziale [obiekt_testowy 1 0 550, obiekt_testowy 2 0 550]
       TOLERANCJA_ZBLIZENIA 0 20000000 60000000
     = Some (Inr [\<lparr>obiekt_id_a = 1, obiekt_id_b = 2, moment_czasu = 0,
                 lokalizacja = \<lparr>szer_geogr = 0, dlug_geogr = 0, wysokosc_npm = 550\<rparr>,
                 dystans_min = 0\<rparr>])"
    by (rule wykryj_para) (simp_all add: PROG_NADMIARU_def TOLERANCJA_ZBLIZENIA_def)
  from lokalizacja_zdarzenia [OF w, of "\<lparr>obiekt_id_a = 1, obiekt_id_b = 2, moment_czasu = 0,
                 lokalizacja = \<lparr>szer_geogr = 0, dlug_geogr = 0, wysokosc_npm = 550\<rparr>,
                 dystans_min = 0\<rparr>"]
  have "oblicz_pozycje_w_czasie (obiekt_testowy 1 0 550) 0
     = Inr (Some \<lparr>szer_geogr = 0, dlug_geogr = 0, wysokosc_npm = 550\<rparr>)"
    by (auto simp: obiekt_testowy_def)
  with w show ?thesis by simp
qed

text \<open>
  Claim C7. In every event that the scan returns, and in every event of a single tick, the
  first identifier is strictly below the second, for every catalogue and every request.
  The events of a tick are in ascending order of the pair of identifiers, and both
  identifiers are among the sorted keys of the positions that survived in the tick.
\<close>

theorem identyfikatory_rosnace:
  "(wykryj_zdarzenia_w_przedziale obiekty prog czas_start czas_koniec delta = Some (Inr zs)
      \<longrightarrow> (\<forall>z\<in>set zs. obiekt_id_a z < obiekt_id_b z)) \<and>
   (zdarzenia_kroku obiekty prog t = Inr zt
      \<longrightarrow> (\<forall>z\<in>set zt. obiekt_id_a z < obiekt_id_b z) \<and>
          sorted_wrt (\<lambda>z z'. obiekt_id_a z < obiekt_id_a z'
                       \<or> (obiekt_id_a z = obiekt_id_a z' \<and> obiekt_id_b z < obiekt_id_b z')) zt \<and>
          (\<exists>m. pozycje_petla obiekty t [] = Inr m
             \<and> (\<forall>z\<in>set zt. obiekt_id_a z \<in> set (sort (map fst m))
                              \<and> obiekt_id_b z \<in> set (sort (map fst m)))))"
proof (intro conjI impI)
  assume "wykryj_zdarzenia_w_przedziale obiekty prog czas_start czas_koniec delta = Some (Inr zs)"
  from wykryj_zrodlo [OF this] show "\<forall>z\<in>set zs. obiekt_id_a z < obiekt_id_b z" by blast
next
  assume t: "zdarzenia_kroku obiekty prog t = Inr zt"
  from zdarzenia_kroku_czlonek [OF t] obtain m where
    m: "pozycje_petla obiekty t [] = Inr m" and
    c: "\<forall>z. z \<in> set zt \<longleftrightarrow>
           (\<exists>a b pa pb d. a < b \<and> map_of m a = Some pa \<and> map_of m b = Some pb
              \<and> dystans_do pa pb = Inr d \<and> d < prog
              \<and> z = \<lparr>obiekt_id_a = a, obiekt_id_b = b, moment_czasu = t,
                     lokalizacja = pa, dystans_min = d\<rparr>)" by blast
  from c show "\<forall>z\<in>set zt. obiekt_id_a z < obiekt_id_b z" by auto
  show "sorted_wrt (\<lambda>z z'. obiekt_id_a z < obiekt_id_a z'
                       \<or> (obiekt_id_a z = obiekt_id_a z' \<and> obiekt_id_b z < obiekt_id_b z')) zt"
    by (rule zdarzenia_kroku_porzadek [OF t])
  have "\<forall>z\<in>set zt. obiekt_id_a z \<in> set (sort (map fst m))
                              \<and> obiekt_id_b z \<in> set (sort (map fst m))"
  proof
    fix z assume "z \<in> set zt"
    with c obtain a b pa pb where "map_of m a = Some pa" "map_of m b = Some pb"
      "obiekt_id_a z = a" "obiekt_id_b z = b" by auto
    then show "obiekt_id_a z \<in> set (sort (map fst m)) \<and> obiekt_id_b z \<in> set (sort (map fst m))"
      by (auto dest: map_of_SomeD intro: rev_image_eqI)
  qed
  with m show "\<exists>m. pozycje_petla obiekty t [] = Inr m
             \<and> (\<forall>z\<in>set zt. obiekt_id_a z \<in> set (sort (map fst m))
                              \<and> obiekt_id_b z \<in> set (sort (map fst m)))" by blast
qed


theorem identyfikatory_rosnace_witness:
  "wykryj_zdarzenia_w_przedziale [obiekt_testowy 1 0 550, obiekt_testowy 2 0 550]
       TOLERANCJA_ZBLIZENIA 0 20000000 60000000
     = Some (Inr [\<lparr>obiekt_id_a = 1, obiekt_id_b = 2, moment_czasu = 0,
                 lokalizacja = \<lparr>szer_geogr = 0, dlug_geogr = 0, wysokosc_npm = 550\<rparr>,
                 dystans_min = 0\<rparr>]) \<and>
   zdarzenia_kroku [obiekt_testowy 1 0 550, obiekt_testowy 2 0 550] TOLERANCJA_ZBLIZENIA 0
     = Inr [\<lparr>obiekt_id_a = 1, obiekt_id_b = 2, moment_czasu = 0,
                 lokalizacja = \<lparr>szer_geogr = 0, dlug_geogr = 0, wysokosc_npm = 550\<rparr>,
                 dystans_min = 0\<rparr>] \<and>
   obiekt_id_a \<lparr>obiekt_id_a = 1, obiekt_id_b = 2, moment_czasu = 0,
                 lokalizacja = \<lparr>szer_geogr = 0, dlug_geogr = 0, wysokosc_npm = 550\<rparr>,
                 dystans_min = 0\<rparr>
     < obiekt_id_b \<lparr>obiekt_id_a = 1, obiekt_id_b = 2, moment_czasu = 0,
                 lokalizacja = \<lparr>szer_geogr = 0, dlug_geogr = 0, wysokosc_npm = 550\<rparr>,
                 dystans_min = 0\<rparr>"
proof -
  have h: "(0::real) \<le> 6371 + 550" "(6371 + 550 :: real) ^ 3 < PROG_NADMIARU"
    "0 < TOLERANCJA_ZBLIZENIA"
    by (simp_all add: PROG_NADMIARU_def TOLERANCJA_ZBLIZENIA_def)
  note w = wykryj_para [OF h] and k = zdarzenia_kroku_para [OF h, of 0]
  from identyfikatory_rosnace
    [of "[obiekt_testowy 1 0 550, obiekt_testowy 2 0 550]" TOLERANCJA_ZBLIZENIA
        0 20000000 60000000 _ 0] w k
  show ?thesis by simp
qed

text \<open>
  Claim C3. At every tick of the grid that the scan visits, for every pair of surviving
  objects (identifiers \<open>a < b\<close> with positions in the tick), the distance is computed
  and the scan returns an event for the pair at that instant if and only if the distance is
  strictly below the threshold; at a distance equal to the threshold there is no event.
\<close>

theorem zdarzenie_ponizej_progu:
  assumes "wykryj_zdarzenia_w_przedziale obiekty prog czas_start czas_koniec delta = Some (Inr zs)"
    and "0 < delta"
    and "zaokraglij_do_siatki czas_start delta = Inr poczatek"
    and "zaokraglij_do_siatki czas_koniec delta = Inr koniec"
    and "poczatek + int n * delta \<le> koniec"
  shows "\<exists>m. pozycje_petla obiekty (poczatek + int n * delta) [] = Inr m \<and>
           (\<forall>a b pa pb. a < b \<and> map_of m a = Some pa \<and> map_of m b = Some pb \<longrightarrow>
              (\<exists>d. dystans_do pa pb = Inr d \<and>
                 ((\<exists>z\<in>set zs. moment_czasu z = poczatek + int n * delta
                       \<and> obiekt_id_a z = a \<and> obiekt_id_b z = b) \<longleftrightarrow> d < prog) \<and>
                 (d = prog \<longrightarrow> \<not> (\<exists>z\<in>set zs. moment_czasu z = poczatek + int n * delta
                       \<and> obiekt_id_a z = a \<and> obiekt_id_b z = b))))"
proof -
  let ?t = "poczatek + int n * delta"
  from wykryj_petla [OF assms(1)] assms(3,4) have
    p: "petla_siatki obiekty prog delta koniec poczatek [] = Some (Inr zs)" by auto
  from petla_siatki_kazdy_krok [OF p assms(2,5)] obtain nowe where
    n: "zdarzenia_kroku obiekty prog ?t = Inr nowe" and sub: "set nowe \<subseteq> set zs" by blast
  from zdarzenia_kroku_czlonek [OF n] obtain m where
    m: "pozycje_petla obiekty ?t [] = Inr m" and
    c: "\<forall>z. z \<in> set nowe \<longleftrightarrow>
           (\<exists>a b pa pb d. a < b \<and> map_of m a = Some pa \<and> map_of m b = Some pb
              \<and> dystans_do pa pb = Inr d \<and> d < prog
              \<and> z = \<lparr>obiekt_id_a = a, obiekt_id_b = b, moment_czasu = ?t,
                     lokalizacja = pa, dystans_min = d\<rparr>)" by blast
  have "\<exists>d. dystans_do pa pb = Inr d \<and>
                 ((\<exists>z\<in>set zs. moment_czasu z = ?t \<and> obiekt_id_a z = a \<and> obiekt_id_b z = b)
                    \<longleftrightarrow> d < prog) \<and>
                 (d = prog \<longrightarrow> \<not> (\<exists>z\<in>set zs. moment_czasu z = ?t
                       \<and> obiekt_id_a z = a \<and> obiekt_id_b z = b))"
    if ab: "a < b" and pa: "map_of m a = Some pa" and pb: "map_of m b = Some pb" for a b pa pb
  proof -
    from zdarzenia_kroku_dystans [OF n m pa pb ab] obtain d where
      d: "dystans_do pa pb = Inr d" by blast
    have iff: "(\<exists>z\<in>set zs. moment_czasu z = ?t \<and> obiekt_id_a z = a \<and> obiekt_id_b z = b)
                 \<longleftrightarrow> d < prog"
    proof
      assume "\<exists>z\<in>set zs. moment_czasu z = ?t \<and> obiekt_id_a z = a \<and> obiekt_id_b z = b"
      then obtain z where z: "z \<in> set zs" "moment_czasu z = ?t" "obiekt_id_a z = a"
        "obiekt_id_b z = b" by blast
      from wykryj_zrodlo [OF assms(1) z(1)] z(2,3,4) m obtain pb' where
        "map_of m a = Some (lokalizacja z)" "map_of m b = Some pb'"
        "dystans_do (lokalizacja z) pb' = Inr (dystans_min z)" "dystans_min z < prog"
        by auto
      with pa pb d show "d < prog" by simp
    next
      assume "d < prog"
      with ab pa pb d c have
        "\<lparr>obiekt_id_a = a, obiekt_id_b = b, moment_czasu = ?t, lokalizacja = pa,
          dystans_min = d\<rparr> \<in> set nowe" by blast
      with sub show "\<exists>z\<in>set zs. moment_czasu z = ?t \<and> obiekt_id_a z = a \<and> obiekt_id_b z = b"
        by force
    qed
    with d show ?thesis by auto
  qed
  with m show ?thesis by blast
qed

theorem zdarzenie_ponizej_progu_witness:
  "wykryj_zdarzenia_w_przedziale [obiekt_testowy 1 0 550, obiekt_testowy 2 0 550]
       TOLERANCJA_ZBLIZENIA 0 20000000 60000000
     = Some (Inr [\<lparr>obiekt_id_a = 1, obiekt_id_b = 2, moment_czasu = 0,
                 lokalizacja = \<lparr>szer_geogr = 0, dlug_geogr = 0, wysokosc_npm = 550\<rparr>,
                 dystans_min = 0\<rparr>]) \<and>
   (\<exists>d. dystans_do \<lparr>szer_geogr = 0, dlug_geogr = 0, wysokosc_npm = 550\<rparr>
                    \<lparr>szer_geogr = 0, dlug_geogr = 0, wysokosc_npm = 550\<rparr> = Inr d
        \<and> d < TOLERANCJA_ZBLIZENIA)"
proof -
  have h: "(0::real) \<le> 6371 + 550" "(6371 + 550 :: real) ^ 3 < PROG_NADMIARU"
    "0 < TOLERANCJA_ZBLIZENIA"
    by (simp_all add: PROG_NADMIARU_def TOLERANCJA_ZBLIZENIA_def)
  note w = wykryj_para [OF h]
  have a: "zaokraglij_do_siatki 0 60000000 = Inr 0"
    by (simp add: zaokraglij_postac py_round_def DATETIME_MIN_def DATETIME_MAX_def)
  have b: "zaokraglij_do_siatki 20000000 60000000 = Inr 0"
    by (simp add: zaokraglij_postac py_round_def DATETIME_MIN_def DATETIME_MAX_def)
  have d: "(0::int) < 60000000" "(0::int) + int 0 * 60000000 \<le> 0" by simp_all
  let ?P = "\<lparr>szer_geogr = 0, dlug_geogr = 0, wysokosc_npm = 550\<rparr>"
  let ?K = "[obiekt_testowy 1 0 550, obiekt_testowy 2 0 550]"
  let ?zs = "[\<lparr>obiekt_id_a = 1, obiekt_id_b = 2, moment_czasu = 0,
                 lokalizacja = ?P, dystans_min = 0\<rparr>]"
  from zdarzenie_ponizej_progu [OF w d(1) a b d(2)] obtain m where
    m: "pozycje_petla ?K (0 + int 0 * 60000000) [] = Inr m" and
    c: "\<forall>a b pa pb. a < b \<and> map_of m a = Some pa \<and> map_of m b = Some pb \<longrightarrow>
              (\<exists>d. dystans_do pa pb = Inr d \<and>
                 ((\<exists>z\<in>set ?zs. moment_czasu z = 0 + int 0 * 60000000
                       \<and> obiekt_id_a z = a \<and> obiekt_id_b z = b) \<longleftrightarrow> d < TOLERANCJA_ZBLIZENIA) \<and>
                 (d = TOLERANCJA_ZBLIZENIA \<longrightarrow> \<not> (\<exists>z\<in>set ?zs. moment_czasu z = 0 + int 0 * 60000000
                       \<and> obiekt_id_a z = a \<and> obiekt_id_b z = b)))"
    by blast
  have "pozycje_petla ?K (0 + int 0 * 60000000) [] = Inr [(1, ?P), (2, ?P)]"
    using pozycje_para [OF h(1,2), of 0] by simp
  with m have meq: "m = [(1, ?P), (2, ?P)]" by simp
  have "(1::int) < 2 \<and> map_of m 1 = Some ?P \<and> map_of m 2 = Some ?P" by (simp add: meq)
  with c obtain d where dd: "dystans_do ?P ?P = Inr d" and
    iff: "(\<exists>z\<in>set ?zs. moment_czasu z = 0 + int 0 * 60000000
                       \<and> obiekt_id_a z = 1 \<and> obiekt_id_b z = 2) \<longleftrightarrow> d < TOLERANCJA_ZBLIZENIA"
    by blast
  from iff have "d < TOLERANCJA_ZBLIZENIA" by simp
  with dd w show ?thesis by blast
qed

text \<open>
  Claim C5. For an object whose start date is strictly after the queried instant the
  position service returns \<^verbatim>\<open>None\<close>, which is neither an exception nor a coordinate.
  The positions and the events of a tick are the same as if the object were not in the
  catalogue; when no other object has its identifier, the identifier has no position in the
  tick and occurs in no event of the tick.
\<close>

theorem obiekt_przed_epoka:
  assumes "czas < data_wprowadzenia ob"
  shows "oblicz_pozycje_w_czasie ob czas = Inr None \<and>
         pozycje_petla (os1 @ ob # os2) czas m = pozycje_petla (os1 @ os2) czas m \<and>
         zdarzenia_kroku (os1 @ ob # os2) prog czas = zdarzenia_kroku (os1 @ os2) prog czas \<and>
         ((\<forall>inny\<in>set (os1 @ os2). id_rekordu inny \<noteq> id_rekordu ob) \<longrightarrow>
            (\<forall>m'. pozycje_petla (os1 @ ob # os2) czas [] = Inr m'
                     \<longrightarrow> map_of m' (id_rekordu ob) = None) \<and>
            (\<forall>zs. zdarzenia_kroku (os1 @ ob # os2) prog czas = Inr zs
                     \<longrightarrow> (\<forall>z\<in>set zs. obiekt_id_a z \<noteq> id_rekordu ob
                                     \<and> obiekt_id_b z \<noteq> id_rekordu ob)))"
proof -
  have n: "oblicz_pozycje_w_czasie ob czas = Inr None"
    using assms by (rule oblicz_pozycje_w_czasie_przed)
  then have p: "pozycje_petla (os1 @ ob # os2) czas m = pozycje_petla (os1 @ os2) czas m" for m
    by (intro pozycje_petla_pomija) simp
  have k: "zdarzenia_kroku (os1 @ ob # os2) prog czas = zdarzenia_kroku (os1 @ os2) prog czas"
    by (simp add: zdarzenia_kroku_def p)
  have u: "map_of m' (id_rekordu ob) = None"
    if inne: "\<forall>inny\<in>set (os1 @ os2). id_rekordu inny \<noteq> id_rekordu ob"
      and m': "pozycje_petla (os1 @ ob # os2) czas [] = Inr m'" for m'
  proof (rule ccontr)
    assume "map_of m' (id_rekordu ob) \<noteq> None"
    then obtain pa where "map_of m' (id_rekordu ob) = Some pa" by auto
    from pozycje_petla_zrodlo [OF m' this] inne n show False by auto
  qed
  have e: "obiekt_id_a z \<noteq> id_rekordu ob \<and> obiekt_id_b z \<noteq> id_rekordu ob"
    if inne: "\<forall>inny\<in>set (os1 @ os2). id_rekordu inny \<noteq> id_rekordu ob"
      and zs: "zdarzenia_kroku (os1 @ ob # os2) prog czas = Inr zs" and z: "z \<in> set zs" for zs z
  proof -
    from zdarzenia_kroku_czlonek [OF zs] z obtain m' a b pa pb where
      "pozycje_petla (os1 @ ob # os2) czas [] = Inr m'" "map_of m' a = Some pa"
      "map_of m' b = Some pb" "obiekt_id_a z = a" "obiekt_id_b z = b" by auto
    with u [OF inne] show ?thesis by auto
  qed
  from n p k u e show ?thesis by blast
qed

theorem obiekt_przed_epoka_witness:
  "(0::int) < data_wprowadzenia (obiekt_testowy 3 1000000 550) \<and>
   oblicz_pozycje_w_czasie (obiekt_testowy 3 1000000 550) 0 = Inr None \<and>
   zdarzenia_kroku [obiekt_testowy 1 0 550, obiekt_testowy 3 1000000 550, obiekt_testowy 2 0 550]
       TOLERANCJA_ZBLIZENIA 0
     = Inr [\<lparr>obiekt_id_a = 1, obiekt_id_b = 2, moment_czasu = 0,
                 lokalizacja = \<lparr>szer_geogr = 0, dlug_geogr = 0, wysokosc_npm = 550\<rparr>,
                 dystans_min = 0\<rparr>]"
proof -
  have h: "(0::real) \<le> 6371 + 550" "(6371 + 550 :: real) ^ 3 < PROG_NADMIARU"
    "0 < TOLERANCJA_ZBLIZENIA"
    by (simp_all add: PROG_NADMIARU_def TOLERANCJA_ZBLIZENIA_def)
  have d: "(0::int) < data_wprowadzenia (obiekt_testowy 3 1000000 550)"
    by (simp add: obiekt_testowy_def)
  from obiekt_przed_epoka [OF d, of "[obiekt_testowy 1 0 550]" "[obiekt_testowy 2 0 550]"
      "[]" TOLERANCJA_ZBLIZENIA]
    zdarzenia_kroku_para [OF h, of 0] d
  show ?thesis by simp
qed

text \<open>
  The entry point \<^verbatim>\<open>oblicz_pozycje\<close> of the propagator raises the computation error
  for a negative elapsed time and for an angular velocity below the epsilon.
\<close>

lemma oblicz_pozycje_blad:
  "total_seconds (moment - data_startowa) < 0
     \<Longrightarrow> oblicz_pozycje param_orb moment dlugosc_pocz data_startowa = Inl BladObliczenOrbitych"
  "oblicz_predkosc_katowa param_orb = Inr omega \<Longrightarrow> \<bar>omega\<bar> < EPSILON_NUMERYCZNY
     \<Longrightarrow> oblicz_pozycje param_orb moment dlugosc_pocz data_startowa = Inl BladObliczenOrbitych"
  by (simp_all add: oblicz_pozycje_def bind_blad_def Let_def)


text \<open>
  An exception of the propagation is not caught by the scan over the grid: it ends the
  whole scan.
\<close>

lemma wykryj_przerwane:
  "wykryj_zdarzenia_w_przedziale [obiekt_testowy 1 0 550, obiekt_testowy 2 0 (2 ^ 400)]
       TOLERANCJA_ZBLIZENIA 0 20000000 60000000
   = Some (Inl OverflowError)"
proof -
  have a: "zaokraglij_do_siatki 0 60000000 = Inr 0"
    by (simp add: zaokraglij_postac py_round_def DATETIME_MIN_def DATETIME_MAX_def)
  have b: "zaokraglij_do_siatki 20000000 60000000 = Inr 0"
    by (simp add: zaokraglij_postac py_round_def DATETIME_MIN_def DATETIME_MAX_def)
  have s: "stan_operacyjny (obiekt_testowy i e h) = ''active''"
    "id_rekordu (obiekt_testowy i e h) = i" for i e h
    by (simp_all add: obiekt_testowy_def)
  have p1: "oblicz_pozycje_w_czasie (obiekt_testowy 1 0 550) 0
         = Inr (Some \<lparr>szer_geogr = 0, dlug_geogr = 0, wysokosc_npm = 550\<rparr>)"
    by (rule obiekt_testowy_w_epoce) (simp_all add: PROG_NADMIARU_def)
  have "propaguj_pozycje \<lparr>polOs_wielka = SREDNICA_BAZOWA_ZIEMI + 2 ^ 400,
          inklinacja_kat = i, wezl_wstepujacy = r\<rparr> t l = Inl OverflowError" for i r t l
    by (simp add: propaguj_pozycje_def oblicz_predkosc_katowa_def oblicz_okres_orbitalny_def
        bind_blad_def py_pow_def PROG_NADMIARU_def SREDNICA_BAZOWA_ZIEMI_def)
  then have p2: "oblicz_pozycje_w_czasie (obiekt_testowy 2 0 (2 ^ 400)) 0 = Inl OverflowError"
    by (simp add: oblicz_pozycje_w_czasie_def obiekt_testowy_def bind_blad_def)
  have k: "zdarzenia_kroku [obiekt_testowy 1 0 550, obiekt_testowy 2 0 (2 ^ 400)]
       TOLERANCJA_ZBLIZENIA 0 = Inl OverflowError"
    using p2 by (simp add: zdarzenia_kroku_def s p1 bind_blad_def)
  show ?thesis
    unfolding wykryj_zdarzenia_w_przedziale_def a b
    using k by (subst petla_siatki.simps) simp
qed

section \<open>The detector at one instant\<close>

lemma petla_pozycji_pomija:
  assumes "oblicz_pozycje_obiektu wal sesja (id_rekordu ob) zn = Inl e"
  shows "petla_pozycji wal sesja zn (os1 @ ob # os2) pozycje
         = petla_pozycji wal sesja zn (os1 @ os2) pozycje"
proof (induction os1 arbitrary: pozycje)
  case Nil
  from assms show ?case by simp
next
  case (Cons x os1)
  then show ?case by (simp split: sum.splits)
qed

lemma oblicz_pozycje_w_epoce:
  assumes "0 \<le> a" "a ^ 3 < PROG_NADMIARU"
    and "1 \<le> a ^ 3 / PARAMETR_GRAWIT_ZIEMI" "a ^ 3 / PARAMETR_GRAWIT_ZIEMI \<le> 10 ^ 18"
  shows "oblicz_pozycje \<lparr>polOs_wielka = a, inklinacja_kat = i, wezl_wstepujacy = 0\<rparr> e 0 e
         = Inr \<lparr>szer_geogr = 0, dlug_geogr = 0, wysokosc_npm = a - SREDNICA_BAZOWA_ZIEMI\<rparr>"
proof -
  let ?p = "\<lparr>polOs_wielka = a, inklinacja_kat = i, wezl_wstepujacy = 0\<rparr>"
  let ?s = "sqrt (a ^ 3 / PARAMETR_GRAWIT_ZIEMI)"
  have s1: "1 \<le> ?s" using assms(3) by (rule real_sqrt_ge_one)
  have s2: "?s \<le> 10 ^ 9" using assms(4) by (intro real_le_lsqrt) simp_all
  have s0: "0 < ?s" using s1 by linarith
  have "2 * 2 * 1 \<le> 2 * pi * ?s" using pi_ge_two s1 by (intro mult_mono) simp_all
  then have T: "EPSILON_NUMERYCZNY < 2 * pi * ?s" by (simp add: EPSILON_NUMERYCZNY_def)
  have om: "oblicz_predkosc_katowa ?p = Inr (2 * pi / (2 * pi * ?s))"
    using predkosc_ok [of ?p] T assms(1,2) by simp
  have e: "2 * pi / (2 * pi * ?s) = 1 / ?s" by simp
  have "1 / 10 ^ 9 \<le> 1 / ?s" using s2 s0 by (intro divide_left_mono) simp_all
  then have "\<not> \<bar>1 / ?s\<bar> < EPSILON_NUMERYCZNY" using s0 by (simp add: EPSILON_NUMERYCZNY_def)
  with om e propaguj_w_epoce [OF om] show ?thesis
    by (simp add: oblicz_pozycje_def total_seconds_def bind_blad_def)
qed

lemma dystans_do_pion:
  "dystans_do \<lparr>szer_geogr = 0, dlug_geogr = 0, wysokosc_npm = 550\<rparr>
              \<lparr>szer_geogr = 0, dlug_geogr = 0, wysokosc_npm = 650\<rparr> = Inr 100"
proof -
  have "sqrt (10000::real) = 100" by (rule real_sqrt_unique) simp_all
  then show ?thesis
    by (simp add: dystans_do_def do_kartezjanskich_def radians_def SREDNICA_BAZOWA_ZIEMI_def
        bind_blad_def py_pow_def py_sqrt_def PROG_NADMIARU_def)
qed

text \<open>
  The detector at one instant differs from the scan over the grid in three ways, all
  visible on one request: it reports a pair at a distance equal to the threshold, it
  records the midpoint of the two positions, and it keeps the two identifiers in the order
  in which the query returned the objects.
\<close>

lemma wykryj_kolizje_przyklad:
  "wykryj_kolizje (\<lambda>znacznik. Inr 0) 100
     \<lparr>obj_katalog = [(obiekt_testowy 2 0 550)\<lparr>id_orbity_powiazanej := 1\<rparr>,
                     (obiekt_testowy 1 0 650)\<lparr>id_orbity_powiazanej := 2\<rparr>],
      orb_katalog = [(1, \<lparr>wysokosc_km = 550, kat_inklinacji = 516 / 10, wezel_wst = 0\<rparr>),
                     (2, \<lparr>wysokosc_km = 650, kat_inklinacji = 516 / 10, wezel_wst = 0\<rparr>)]\<rparr>
     ''1970-01-01T00:00:00Z'' None
   = Inr [\<lparr>obiekt_id_a = 2, obiekt_id_b = 1, moment_czasu = 0,
           lokalizacja = \<lparr>szer_geogr = 0, dlug_geogr = 0, wysokosc_npm = 600\<rparr>,
           dystans_min = 100\<rparr>]"
proof -
  have a: "oblicz_pozycje \<lparr>polOs_wielka = 6921, inklinacja_kat = i, wezl_wstepujacy = 0\<rparr> 0 0 0
         = Inr \<lparr>szer_geogr = 0, dlug_geogr = 0, wysokosc_npm = 550\<rparr>" for i
    using oblicz_pozycje_w_epoce [of 6921 i 0]
    by (simp add: PROG_NADMIARU_def PARAMETR_GRAWIT_ZIEMI_def SREDNICA_BAZOWA_ZIEMI_def)
  have b: "oblicz_pozycje \<lparr>polOs_wielka = 7021, inklinacja_kat = i, wezl_wstepujacy = 0\<rparr> 0 0 0
         = Inr \<lparr>szer_geogr = 0, dlug_geogr = 0, wysokosc_npm = 650\<rparr>" for i
    using oblicz_pozycje_w_epoce [of 7021 i 0]
    by (simp add: PROG_NADMIARU_def PARAMETR_GRAWIT_ZIEMI_def SREDNICA_BAZOWA_ZIEMI_def)
  show ?thesis
    by (simp add: wykryj_kolizje_def obiekt_testowy_def oblicz_pozycje_obiektu_def bind_blad_def
        SREDNICA_BAZOWA_ZIEMI_def Let_def a b dystans_do_pion)
qed

text \<open>
  On the two objects of altitude \<open>1e8\<close> km the detector at one instant excludes both,
  because the entry point of the propagator raises for each.
\<close>

lemma wykryj_kolizje_zdegenerowana:
  "wykryj_kolizje (\<lambda>znacznik. Inr 0) TOLERANCJA_ZBLIZENIA
     \<lparr>obj_katalog = [obiekt_testowy 1 0 (10 ^ 8), obiekt_testowy 2 0 (10 ^ 8)],
      orb_katalog = [(1, \<lparr>wysokosc_km = 10 ^ 8, kat_inklinacji = 516 / 10, wezel_wst = 0\<rparr>)]\<rparr>
     ''1970-01-01T00:00:00Z'' None
   = Inr []"
proof -
  have "oblicz_pozycje \<lparr>polOs_wielka = 100006371, inklinacja_kat = 258 / 5, wezl_wstepujacy = 0\<rparr>
     0 0 0 = Inl BladObliczenOrbitych"
    using oblicz_pozycje_zdegenerowana by simp
  then show ?thesis
    by (simp add: wykryj_kolizje_def obiekt_testowy_def oblicz_pozycje_obiektu_def bind_blad_def
        SREDNICA_BAZOWA_ZIEMI_def Let_def)
qed

end
